theory Spec2Isabelle
  imports Main "HOL-Library.Sublist"
begin

section \<open>Conventions\<close>

text \<open>
  The development embeds the parts of the \<^verbatim>\<open>orm\<close> package that the properties below are
  about: the row fetches \<^verbatim>\<open>Rows.Row\<close> and \<^verbatim>\<open>Rows.Rows\<close>, the row binder, \<^verbatim>\<open>open\<close>,
  \<^verbatim>\<open>ExecRows\<close>, and, from the SQLite dialect, the \<^verbatim>\<open>CREATE TABLE\<close> tokenizer, the
  table-recreate procedure and \<^verbatim>\<open>AutoMigrate\<close>.

  A Go \<^verbatim>\<open>string\<close> is modelled as the list of its code points, one \<^typ>\<open>char\<close> each, which
  covers every string over U+0000..U+00FF. A Go \<^verbatim>\<open>error\<close> is a value of the type
  \<open>error\<close> below, and a function that returns \<^verbatim>\<open>error\<close> returns \<open>error option\<close>
  (\<open>None\<close> is \<^verbatim>\<open>nil\<close>). What the code obtains from \<^verbatim>\<open>database/sql\<close>, from the
  driver, from \<^verbatim>\<open>regexp\<close> or from \<^verbatim>\<open>reflect\<close> is a parameter of the model.
\<close>

datatype error =
    NotFound string       \<comment> \<open>\<^verbatim>\<open>errors.NewNotFound(kind)\<close>\<close>
  | Errorf string         \<comment> \<open>\<^verbatim>\<open>fmt.Errorf\<close> or \<^verbatim>\<open>errors.New\<close> with a fixed text\<close>
  | Wrap string error     \<comment> \<open>\<^verbatim>\<open>fmt.Errorf(prefix + "%s", err)\<close>\<close>
  | External string       \<comment> \<open>an error of the driver, of \<^verbatim>\<open>database/sql\<close> or of \<^verbatim>\<open>encoding/json\<close>\<close>

section \<open>Row fetches\<close>

text \<open>
  \<^verbatim>\<open>type Rows struct\<close>: the embedded options contribute \<^verbatim>\<open>ignoreNotFound\<close>; the cursor
  \<^verbatim>\<open>rows *sql.Rows\<close> is the list of result rows not fetched yet, so that \<^verbatim>\<open>rows.Next()\<close>
  is true exactly when the list is not empty.
\<close>

record 'raw Rows =
  ignoreNotFound :: bool
  maxRows :: int
  rows :: "'raw list"
  err :: "error option"

text \<open>
  A pending transfer of the binder (\<^verbatim>\<open>type transfer struct\<close>): \<^verbatim>\<open>dstProxy\<close> holds what the row
  scan captured for a JSON or epoch column, \<^verbatim>\<open>dst\<close> names the destination field.
\<close>

datatype proxy = ProxyNil | ProxyInt64 int | ProxyBytes string | ProxyOther

record 'f transfer =
  dstProxy :: proxy
  dst :: 'f
  ptr :: bool

text \<open>
  What the binder takes from \<^verbatim>\<open>reflect\<close>, \<^verbatim>\<open>encoding/json\<close> and \<^verbatim>\<open>database/sql\<close>, for
  destinations of type \<open>'a\<close> with fields named by \<open>'f\<close>.
\<close>

record ('raw, 'f, 'a) binding =
  zero :: 'a                                                \<comment> \<open>\<^verbatim>\<open>reflect.New(sample).Elem()\<close>\<close>
  structMode :: bool                                        \<comment> \<open>\<^verbatim>\<open>isStructMode\<close> of the element\<close>
  Scan :: "'raw \<Rightarrow> 'a \<Rightarrow> error + 'a"                       \<comment> \<open>\<^verbatim>\<open>rows.Scan\<close> into plain destinations\<close>
  Columns :: "error option"                                 \<comment> \<open>failure of \<^verbatim>\<open>rows.Columns()\<close>\<close>
  bind :: "'a \<Rightarrow> error option"                             \<comment> \<open>failure of \<^verbatim>\<open>binder.bind\<close>\<close>
  destScan :: "'raw \<Rightarrow> 'a \<Rightarrow> error option \<times> 'a \<times> 'f transfer list"
                                                            \<comment> \<open>\<^verbatim>\<open>rows.Scan(p.dest...)\<close>\<close>
  isNil :: "'f \<Rightarrow> 'a \<Rightarrow> bool"
  allocate :: "'f \<Rightarrow> 'a \<Rightarrow> 'a"                             \<comment> \<open>\<^verbatim>\<open>rv.Set(reflect.New(...))\<close>\<close>
  isTime :: "'f \<Rightarrow> bool"                                   \<comment> \<open>the field is a \<^verbatim>\<open>time.Time\<close>\<close>
  setTime :: "'f \<Rightarrow> int \<Rightarrow> 'a \<Rightarrow> 'a"
  jsonUnmarshal :: "string \<Rightarrow> 'f \<Rightarrow> 'a \<Rightarrow> error option \<times> 'a"

text \<open>\<^verbatim>\<open>func (p *transfer) unmarshal() error\<close>: a JSON decode error is logged, not returned.\<close>

definition unmarshal :: "('raw, 'f, 'a) binding \<Rightarrow> 'f transfer \<Rightarrow> 'a \<Rightarrow> error option \<times> 'a" where
  "unmarshal env t v =
     (if dstProxy t = ProxyNil then (None, v)
      else
        let v1 = (if ptr t \<and> isNil env (dst t) v then allocate env (dst t) v else v) in
        (case dstProxy t of
           ProxyInt64 i \<Rightarrow> (None, if isTime env (dst t) then setTime env (dst t) i v1 else v1)
         | ProxyBytes js \<Rightarrow> (None, snd (jsonUnmarshal env js (dst t) v1))
         | _ \<Rightarrow> (None, v1)))"

text \<open>The loop \<^verbatim>\<open>for _, v := range tran\<close> of \<^verbatim>\<open>binder.scan\<close>.\<close>

fun unmarshal_all :: "('raw, 'f, 'a) binding \<Rightarrow> 'f transfer list \<Rightarrow> 'a \<Rightarrow> error option \<times> 'a" where
  "unmarshal_all env [] v = (None, v)"
| "unmarshal_all env (t # ts) v =
     (case unmarshal env t v of
        (Some e, v') \<Rightarrow> (Some e, v')
      | (None, v') \<Rightarrow> unmarshal_all env ts v')"

text \<open>\<^verbatim>\<open>func (p binder) scan(sample reflect.Value) error\<close>, on the current row \<open>r\<close>.\<close>

definition binder_scan :: "('raw, 'f, 'a) binding \<Rightarrow> 'raw \<Rightarrow> 'a \<Rightarrow> error option \<times> 'a" where
  "binder_scan env r sample =
     (case bind env sample of
        Some e \<Rightarrow> (Some e, sample)
      | None \<Rightarrow>
         (case destScan env r sample of
            (Some e, v, tran) \<Rightarrow> (Some (Wrap ''Scan() err: '' e), v)
          | (None, v, tran) \<Rightarrow> unmarshal_all env tran v))"

text \<open>\<^verbatim>\<open>func (p *Rows) genBinder\<close>: fails when the column names cannot be read.\<close>

definition genBinder :: "('raw, 'f, 'a) binding \<Rightarrow> error option" where
  "genBinder env = Columns env"

text \<open>
  The destination of \<^verbatim>\<open>Row\<close>: plain values, or one struct (\<^verbatim>\<open>len(dst) == 1 && isStructMode(dst[0])\<close>)
  together with \<^verbatim>\<open>row.CanSet()\<close>.
\<close>

datatype 'a row_target = Values 'a | Struct bool 'a

fun target_value :: "'a row_target \<Rightarrow> 'a" where
  "target_value (Values v) = v"
| "target_value (Struct s v) = v"

text \<open>\<^verbatim>\<open>func (p *Rows) scanRow(dst interface{}) error\<close>.\<close>

definition scanRow :: "('raw, 'f, 'a) binding \<Rightarrow> 'raw \<Rightarrow> bool \<Rightarrow> 'a \<Rightarrow> error option \<times> 'a" where
  "scanRow env r canSet v =
     (if \<not> canSet then (Some (Errorf ''scan target can not be set''), v)
      else (case genBinder env of
              Some e \<Rightarrow> (Some e, v)
            | None \<Rightarrow>
               (case binder_scan env r v of
                  (Some e, v') \<Rightarrow> (Some (Wrap ''rows.scan() err: '' e), v')
                | (None, v') \<Rightarrow> (None, v'))))"

text \<open>\<^verbatim>\<open>func (p *Rows) Row(dst ...interface{}) error\<close>: the error and the destination afterwards.\<close>

definition Row :: "('raw, 'f, 'a) binding \<Rightarrow> 'raw Rows \<Rightarrow> 'a row_target \<Rightarrow> error option \<times> 'a" where
  "Row env p d =
     (case err p of
        Some e \<Rightarrow> (Some e, target_value d)
      | None \<Rightarrow>
         (case rows p of
            r # rest \<Rightarrow>
              (case d of
                 Struct canSet v \<Rightarrow> scanRow env r canSet v
               | Values v \<Rightarrow>
                  (case Scan env r v of
                     Inl e \<Rightarrow> (Some e, v)
                   | Inr v' \<Rightarrow> (None, v')))
          | [] \<Rightarrow>
              (if \<not> ignoreNotFound p then (Some (NotFound ''object''), target_value d)
               else (None, target_value d))))"

text \<open>
  The destination of \<^verbatim>\<open>Rows\<close>, as \<^verbatim>\<open>rowsInputValue\<close> classifies it: not settable, a nil
  pointer, not a slice, or a slice with its elements.
\<close>

datatype 'a rows_target = NotSettable | NilPointer | NotSlice | Slice "'a list"

definition rowsInputValue :: "'a rows_target \<Rightarrow> error + 'a list" where
  "rowsInputValue d =
     (case d of
        NotSettable \<Rightarrow> Inl (Errorf ''scan target can not be set'')
      | NilPointer \<Rightarrow> Inl (Errorf ''needs a pointer to a slice'')
      | NotSlice \<Rightarrow> Inl (Errorf ''needs a pointer to a slice'')
      | Slice xs \<Rightarrow> Inr xs)"

text \<open>
  The loop of \<^verbatim>\<open>Rows\<close> for plain elements (\<^verbatim>\<open>[]string\<close>): \<open>n\<close> counts the rows appended,
  \<open>rv\<close> is the slice.
\<close>

fun rows_plain ::
  "('raw, 'f, 'a) binding \<Rightarrow> int \<Rightarrow> 'raw list \<Rightarrow> int \<Rightarrow> 'a list \<Rightarrow> error option \<times> 'a list" where
  "rows_plain env limit [] n rv = (None, rv)"
| "rows_plain env limit (r # rest) n rv =
     (case Scan env r (zero env) of
        Inl e \<Rightarrow> (Some (Wrap ''rows.scan() err: '' e), rv)
      | Inr row \<Rightarrow>
         (if n + 1 \<ge> limit then (None, rv @ [row])
          else rows_plain env limit rest (n + 1) (rv @ [row])))"

text \<open>The loop of \<^verbatim>\<open>Rows\<close> for struct elements: the result of \<^verbatim>\<open>b.scan(row)\<close> is dropped.\<close>

fun rows_struct ::
  "('raw, 'f, 'a) binding \<Rightarrow> int \<Rightarrow> 'raw list \<Rightarrow> int \<Rightarrow> 'a list \<Rightarrow> error option \<times> 'a list" where
  "rows_struct env limit [] n rv = (None, rv)"
| "rows_struct env limit (r # rest) n rv =
     (let row = snd (binder_scan env r (zero env)) in
      if n + 1 \<ge> limit then (None, rv @ [row])
      else rows_struct env limit rest (n + 1) (rv @ [row]))"

text \<open>\<^verbatim>\<open>func (p *Rows) Rows(dst interface{}) error\<close>: the error and the destination afterwards.\<close>

definition Rows ::
  "('raw, 'f, 'a) binding \<Rightarrow> 'raw Rows \<Rightarrow> 'a rows_target \<Rightarrow> error option \<times> 'a rows_target" where
  "Rows env p d =
     (case err p of
        Some e \<Rightarrow> (Some e, d)
      | None \<Rightarrow>
         (case rowsInputValue d of
            Inl e \<Rightarrow> (Some e, d)
          | Inr rv \<Rightarrow>
             (if \<not> structMode env then
                (case rows_plain env (maxRows p) (rows p) 0 rv of (e, rv') \<Rightarrow> (e, Slice rv'))
              else
                (case genBinder env of
                   Some e \<Rightarrow> (Some e, d)
                 | None \<Rightarrow>
                    (case rows_struct env (maxRows p) (rows p) 0 rv of
                       (e, rv') \<Rightarrow> (e, Slice rv'))))))"

section \<open>Options and opening a connection\<close>

text \<open>
  \<^verbatim>\<open>type DBOptions struct\<close>. The fields \<^verbatim>\<open>ignoreNotFound\<close>, \<^verbatim>\<open>maxRows\<close> and \<^verbatim>\<open>err\<close> carry the
  suffix \<open>_opt\<close> here, since \<open>Rows\<close> has fields of the same names. Durations are integers
  (nanoseconds). The context \<^verbatim>\<open>ctx\<close> only starts a goroutine that closes the connection
  when the context ends; it is left out.
\<close>

record DBOptions =
  driver :: string
  dsn :: string
  ignoreNotFound_opt :: bool
  withoutPing :: bool
  maxRows_opt :: int
  maxIdleCount :: "int option"
  maxOpenConns :: "int option"
  connMaxLifetime :: "int option"
  connMaxIdletime :: "int option"
  stringSize :: int
  err_opt :: "error option"

text \<open>\<^verbatim>\<open>func NewDefaultDBOptions() *DBOptions\<close>: every other field has Go's zero value.\<close>

definition NewDefaultDBOptions :: DBOptions where
  "NewDefaultDBOptions =
     \<lparr>driver = [], dsn = [], ignoreNotFound_opt = False, withoutPing = False,
      maxRows_opt = 1000, maxIdleCount = None, maxOpenConns = None, connMaxLifetime = None,
      connMaxIdletime = None, stringSize = 255, err_opt = None\<rparr>"

text \<open>
  \<^verbatim>\<open>*sql.DB\<close>: the handle \<open>'h\<close> that \<^verbatim>\<open>sql.Open\<close> returned, and the pool settings
  \<^verbatim>\<open>open\<close> applies to it.
\<close>

record 'h sqlDB =
  handle :: 'h
  MaxIdleConns :: "int option"
  MaxOpenConns :: "int option"
  ConnMaxLifetime :: "int option"
  ConnMaxIdleTime :: "int option"

text \<open>\<^verbatim>\<open>database/sql\<close>, as \<^verbatim>\<open>open\<close> uses it.\<close>

record 'h sqlpkg =
  sqlOpen :: "string \<Rightarrow> string \<Rightarrow> error + 'h"       \<comment> \<open>\<^verbatim>\<open>sql.Open(driver, dsn)\<close>\<close>
  Ping :: "'h \<Rightarrow> error option"                      \<comment> \<open>\<^verbatim>\<open>rawDB.Ping()\<close>\<close>

text \<open>
  The dialect driver of a connection: \<^verbatim>\<open>&nonDriver{}\<close>, or what a registered factory built.
\<close>

datatype 'd Driver = nonDriver | Dialect 'd

record ('h, 'd) ormDB =
  Options :: DBOptions
  db :: "'h sqlDB"
  Driver :: "'d Driver"

text \<open>\<^verbatim>\<open>type DBFactory func(db DB) Driver\<close> and the registry \<^verbatim>\<open>dbFactories\<close>.\<close>

type_synonym ('h, 'd) DBFactory = "('h, 'd) ormDB \<Rightarrow> 'd"

text \<open>\<^verbatim>\<open>func open(opts *Options) (DB, error)\<close>.\<close>

definition "open" ::
  "'h sqlpkg \<Rightarrow> (string \<rightharpoonup> ('h, 'd) DBFactory) \<Rightarrow> DBOptions \<Rightarrow> error + ('h, 'd) ormDB" where
  "open pkg dbFactories opts =
     (case sqlOpen pkg (driver opts) (dsn opts) of
        Inl e \<Rightarrow> Inl e
      | Inr h \<Rightarrow>
         (case (if \<not> withoutPing opts then Ping pkg h else None) of
            Some e \<Rightarrow> Inl e
          | None \<Rightarrow>
             (let rawDB = \<lparr>handle = h, MaxIdleConns = maxIdleCount opts,
                           MaxOpenConns = maxOpenConns opts,
                           ConnMaxLifetime = connMaxLifetime opts,
                           ConnMaxIdleTime = connMaxIdletime opts\<rparr>;
                  d = \<lparr>Options = opts, db = rawDB, Driver = nonDriver\<rparr>
              in (case dbFactories (driver opts) of
                    Some f \<Rightarrow> Inr (d\<lparr>Driver := Dialect (f d)\<rparr>)
                  | None \<Rightarrow> Inr d))))"

section \<open>Bulk script execution\<close>

text \<open>
  \<^verbatim>\<open>unicode.IsSpace\<close> on U+0000..U+00FF, \<^verbatim>\<open>strings.TrimSpace\<close>, \<^verbatim>\<open>strings.HasPrefix\<close>,
  \<^verbatim>\<open>strings.Join\<close>, \<^verbatim>\<open>strings.Split(s, "\n")\<close> and \<^verbatim>\<open>strings.Index(s, " ")\<close> (\<open>-1\<close> when
  there is no space).
\<close>

definition isSpace :: "char \<Rightarrow> bool" where
  "isSpace c = (c = CHR 0x09 \<or> c = CHR 0x0A \<or> c = CHR 0x0B \<or> c = CHR 0x0C \<or> c = CHR 0x0D
                \<or> c = CHR 0x20 \<or> c = CHR 0x85 \<or> c = CHR 0xA0)"

definition TrimSpace :: "string \<Rightarrow> string" where
  "TrimSpace s = rev (dropWhile isSpace (rev (dropWhile isSpace s)))"

definition HasPrefix :: "string \<Rightarrow> string \<Rightarrow> bool" where
  "HasPrefix s p = (take (length p) s = p)"

fun Join :: "string list \<Rightarrow> string \<Rightarrow> string" where
  "Join [] sep = []"
| "Join [x] sep = x"
| "Join (x # y # ys) sep = x @ sep @ Join (y # ys) sep"

fun SplitLines :: "string \<Rightarrow> string list" where
  "SplitLines [] = [[]]"
| "SplitLines (c # cs) =
     (if c = CHR 0x0A then [] # SplitLines cs
      else (case SplitLines cs of
              l # ls \<Rightarrow> (c # l) # ls
            | [] \<Rightarrow> [[c]]))"

definition IndexSpace :: "string \<Rightarrow> int" where
  "IndexSpace s = (if CHR '' '' \<in> set s then int (length (takeWhile (\<lambda>c. c \<noteq> CHR '' '') s)) else -1)"

text \<open>
  The line loop of \<^verbatim>\<open>ExecRows\<close>, with its variables \<^verbatim>\<open>cmd\<close>, \<^verbatim>\<open>in\<close> (here \<open>inCmd\<close>) and
  \<^verbatim>\<open>cmds\<close>.
\<close>

fun scanLines :: "string list \<Rightarrow> string \<Rightarrow> bool \<Rightarrow> string list \<Rightarrow> string list" where
  "scanLines [] cmd inCmd cmds = cmds"
| "scanLines (line # ls) cmd inCmd cmds =
     (if length line = 0 \<or> HasPrefix line ''-- '' then scanLines ls cmd inCmd cmds
      else if inCmd then
        (let cmd1 = cmd @ '' '' @ TrimSpace line in
         if last cmd1 = CHR '';'' then scanLines ls cmd1 False (cmds @ [cmd1])
         else scanLines ls cmd1 True cmds)
      else
        (let n = IndexSpace line in
         if n \<le> 0 then scanLines ls cmd inCmd cmds
         else if take (nat n) line \<in> {''SET'', ''CREATE'', ''INSERT'', ''DROP''} then
           (if last line = CHR '';'' then scanLines ls line False (cmds @ [line])
            else scanLines ls line True cmds)
         else scanLines ls cmd inCmd cmds))"

definition scriptCmds :: "string \<Rightarrow> string list" where
  "scriptCmds bytes = scanLines (SplitLines bytes) [] False []"

text \<open>
  The database behind \<^verbatim>\<open>ExecRows\<close>, as \<^verbatim>\<open>database/sql\<close> presents it. \<open>beginErr\<close> is the
  error of \<^verbatim>\<open>db.Begin()\<close>; \<open>execErr done q\<close> is the error of \<^verbatim>\<open>tx.Exec(q)\<close> after the
  statements \<open>done\<close> ran in the transaction; \<open>commitErr\<close> is the error of \<^verbatim>\<open>tx.Commit()\<close>.
  \<open>txlog\<close> records the calls made, \<open>pending\<close> holds the statements that ran in the open
  transaction, and \<open>durable\<close> those whose effects are committed.
\<close>

datatype tx_event = TxBegin | TxExec string | TxCommit | TxRollback

record txdb =
  beginErr :: "error option"
  execErr :: "string list \<Rightarrow> string \<Rightarrow> error option"
  commitErr :: "error option"
  txlog :: "tx_event list"
  pending :: "string list"
  durable :: "string list"

text \<open>
  \<^verbatim>\<open>db.Begin()\<close>, \<^verbatim>\<open>tx.Exec(query)\<close>, \<^verbatim>\<open>tx.Commit()\<close> and \<^verbatim>\<open>tx.Rollback()\<close>. A statement that
  fails leaves the transaction as it was. A commit that succeeds makes the statements of the
  transaction durable; a commit that fails and a rollback discard them.
\<close>

definition Begin :: "txdb \<Rightarrow> error option \<times> txdb" where
  "Begin d =
     (case beginErr d of
        Some e \<Rightarrow> (Some e, d)
      | None \<Rightarrow> (None, d\<lparr>txlog := txlog d @ [TxBegin], pending := []\<rparr>))"

definition txExec :: "txdb \<Rightarrow> string \<Rightarrow> error option \<times> txdb" where
  "txExec d q =
     (case execErr d (pending d) q of
        Some e \<Rightarrow> (Some e, d\<lparr>txlog := txlog d @ [TxExec q]\<rparr>)
      | None \<Rightarrow> (None, d\<lparr>txlog := txlog d @ [TxExec q], pending := pending d @ [q]\<rparr>))"

definition Commit :: "txdb \<Rightarrow> error option \<times> txdb" where
  "Commit d =
     (commitErr d,
      d\<lparr>txlog := txlog d @ [TxCommit],
        durable := (if commitErr d = None then durable d @ pending d else durable d),
        pending := []\<rparr>)"

definition Rollback :: "txdb \<Rightarrow> error option \<times> txdb" where
  "Rollback d = (None, d\<lparr>txlog := txlog d @ [TxRollback], pending := []\<rparr>)"

text \<open>
  The loop \<^verbatim>\<open>for i := 0; i < len(cmds); i++\<close>: it returns at the first statement that fails.
\<close>

fun execCmds :: "txdb \<Rightarrow> string list \<Rightarrow> error option \<times> txdb" where
  "execCmds tx [] = (None, tx)"
| "execCmds tx (q # qs) =
     (case txExec tx q of
        (Some e, tx1) \<Rightarrow> (Some (Wrap (''sql '' @ q @ [CHR 0x0A] @ ''err '') e), tx1)
      | (None, tx1) \<Rightarrow> execCmds tx1 qs)"

text \<open>
  \<^verbatim>\<open>func (p *ormDB) ExecRows(bytes []byte) (err error)\<close>. The deferred function runs on every
  return after \<^verbatim>\<open>Begin\<close> succeeded, and reads the named result \<^verbatim>\<open>err\<close>; it drops what
  \<^verbatim>\<open>tx.Rollback()\<close> and \<^verbatim>\<open>tx.Commit()\<close> return.
\<close>

definition ExecRows :: "txdb \<Rightarrow> string \<Rightarrow> error option \<times> txdb" where
  "ExecRows d bytes =
     (case Begin d of
        (Some e, d1) \<Rightarrow> (Some (Wrap ''Begin() err: '' e), d1)
      | (None, tx) \<Rightarrow>
         (let cmds = scriptCmds bytes in
          (case execCmds tx cmds of
             (err0, tx1) \<Rightarrow>
               (err0, if err0 \<noteq> None then snd (Rollback tx1) else snd (Commit tx1)))))"

text \<open>
  The commands of a blob, said line by line, for comparison with the line loop. A line that is empty
  or starts with \<^verbatim>\<open>"-- "\<close> is skipped wherever it stands. Of the other lines, one starts a command
  when it begins with one of the four keywords and a space; lines that are not part of a
  command and do not start one are ignored. The command is the starting line itself when its last
  character is a semicolon. Otherwise it is the starting line followed by the next lines, each
  trimmed and preceded by one space, up to and including the first whose trimmed text ends with a
  semicolon; when no such line follows, there is no command.
\<close>

definition skipped :: "string \<Rightarrow> bool" where
  "skipped l = (l = [] \<or> HasPrefix l ''-- '')"

definition startsCommand :: "string \<Rightarrow> bool" where
  "startsCommand l =
     (HasPrefix l ''SET '' \<or> HasPrefix l ''CREATE '' \<or> HasPrefix l ''INSERT '' \<or> HasPrefix l ''DROP '')"

definition endsCommand :: "string \<Rightarrow> bool" where
  "endsCommand l = (TrimSpace l \<noteq> [] \<and> last (TrimSpace l) = CHR '';'')"

definition joinLines :: "string \<Rightarrow> string list \<Rightarrow> string" where
  "joinLines l ls = l @ concat (map (\<lambda>x. '' '' @ TrimSpace x) ls)"

function commandsOf :: "string list \<Rightarrow> string list" where
  "commandsOf [] = []"
| "commandsOf (l # ls) =
     (if \<not> startsCommand l then commandsOf ls
      else if last l = CHR '';'' then l # commandsOf ls
      else (case dropWhile (\<lambda>x. \<not> endsCommand x) ls of
              [] \<Rightarrow> []
            | t # rest \<Rightarrow>
                joinLines l (takeWhile (\<lambda>x. \<not> endsCommand x) ls @ [t]) # commandsOf rest))"
  by pat_completeness auto
termination
proof (relation "measure length", goal_cases)
  case 1
  then show ?case by simp
next
  case (2 l ls)
  then show ?case by simp
next
  case (3 l ls)
  then show ?case by simp
next
  case (4 l ls t rest)
  have "length (dropWhile (\<lambda>x. \<not> endsCommand x) ls) \<le> length ls" by (rule length_dropWhile_le)
  with 4 show ?case by simp
qed

definition commands :: "string \<Rightarrow> string list" where
  "commands bytes = commandsOf (filter (\<lambda>l. \<not> skipped l) (SplitLines bytes))"

text \<open>
  \<open>allSucceed d qs\<close> says that every statement of \<open>qs\<close>, run in order in one transaction,
  succeeds.
\<close>

definition allSucceed :: "txdb \<Rightarrow> string list \<Rightarrow> bool" where
  "allSucceed d qs = (\<forall>k < length qs. execErr d (take k qs) (qs ! k) = None)"

section \<open>The CREATE TABLE tokenizer\<close>

text \<open>
  The character class \<^verbatim>\<open>[\w\d]\<close> of the patterns below: ASCII letters, digits and the underscore.
\<close>

definition isWord :: "char \<Rightarrow> bool" where
  "isWord c = (c \<in> set ''0123456789ABCDEFGHIJKLMNOPQRSTUVWXYZabcdefghijklmnopqrstuvwxyz_'')"

text \<open>
  \<^verbatim>\<open>strings.ToUpper\<close> and the case folding of \<^verbatim>\<open>(?i)\<close>, on U+0000..U+00FF as far as the code needs them: the letters a to z
  become A to Z. No other code point of that range becomes an ASCII character, so a comparison of the
  result with an ASCII keyword is exact.
\<close>

definition upperASCII :: "char \<Rightarrow> char" where
  "upperASCII c =
     (case map_of (zip ''abcdefghijklmnopqrstuvwxyz'' ''ABCDEFGHIJKLMNOPQRSTUVWXYZ'') c of
        Some u \<Rightarrow> u
      | None \<Rightarrow> c)"

text \<open>
  The pattern \<^verbatim>\<open>["`]?\<close>: an optional double quote or backquote, and the rest. The quote is
  always taken when present: what follows in both patterns could not match with the quote left in place.
\<close>

definition optQuote :: "string \<Rightarrow> string \<times> string" where
  "optQuote s =
     (case s of
        c # cs \<Rightarrow> if c = CHR 0x22 \<or> c = CHR 0x60 then ([c], cs) else ([], s)
      | [] \<Rightarrow> ([], []))"

text \<open>
  The optional group \<^verbatim>\<open>(?: \((.*)\))?\<close> at the end of the \<^verbatim>\<open>CREATE TABLE\<close> pattern: after a space
  and an opening parenthesis, the greedy \<^verbatim>\<open>.*\<close> stops before the last closing parenthesis of the line
  (\<^verbatim>\<open>.\<close> does not match a newline). When the group does not match, submatch 2 is empty.
\<close>

definition ddlBodyOf :: "string \<Rightarrow> string" where
  "ddlBodyOf s =
     (case s of
        a # b # rest \<Rightarrow>
          if a = CHR '' '' \<and> b = CHR ''('' then
            (let line = takeWhile (\<lambda>c. c \<noteq> CHR 0x0A) rest in
             if CHR '')'' \<in> set line
             then rev (tl (dropWhile (\<lambda>c. c \<noteq> CHR '')'') (rev line)))
             else [])
          else []
      | _ \<Rightarrow> [])"

text \<open>
  A match of \<^verbatim>\<open>(?i)(CREATE TABLE ["`]?[\w\d]+["`]?)(?: \((.*)\))?\<close> starting at the first character of
  \<open>s\<close>: submatches 1 and 2.
\<close>

definition matchCreateTable :: "string \<Rightarrow> (string \<times> string) option" where
  "matchCreateTable s =
     (if map upperASCII (take 13 s) = ''CREATE TABLE '' then
        (case optQuote (drop 13 s) of
           (q1, r1) \<Rightarrow>
             (let name = takeWhile isWord r1 in
              if name = [] then None
              else (case optQuote (dropWhile isWord r1) of
                      (q2, r2) \<Rightarrow> Some (take 13 s @ q1 @ name @ q2, ddlBodyOf r2))))
      else None)"

text \<open>
  \<^verbatim>\<open>reg.FindStringSubmatch(sql)\<close>: the leftmost match.
\<close>

fun findCreateTable :: "string \<Rightarrow> (string \<times> string) option" where
  "findCreateTable [] = None"
| "findCreateTable (c # cs) =
     (case matchCreateTable (c # cs) of
        Some m \<Rightarrow> Some m
      | None \<Rightarrow> findCreateTable cs)"


text \<open>
  One iteration of the loop of \<^verbatim>\<open>sqliteParseDDL\<close> changes \<^verbatim>\<open>bracketLevel\<close> and \<^verbatim>\<open>quote\<close>, may consume the
  next character as well (\<open>escaped\<close>, the \<^verbatim>\<open>i++\<close>), and may close a clause (\<open>split\<close>, the \<^verbatim>\<open>continue\<close>).
\<close>

record scanStep =
  bracketLevel :: int
  quote :: char
  escaped :: bool
  split :: bool

text \<open>
  The \<^verbatim>\<open>if\<close> chain of the loop body, for the character \<open>c\<close>, the character after it (\<open>CHR 0\<close> at the end)
  and the current \<^verbatim>\<open>bracketLevel\<close> and \<^verbatim>\<open>quote\<close> (\<open>CHR 0\<close> when no quote is open).
\<close>

definition step :: "char \<Rightarrow> char \<Rightarrow> int \<Rightarrow> char \<Rightarrow> scanStep" where
  "step c next lvl q =
     (if c = CHR 0x27 \<or> c = CHR 0x22 \<or> c = CHR 0x60 then
        (if c = next then \<lparr>bracketLevel = lvl, quote = q, escaped = True, split = False\<rparr>
         else if q \<noteq> CHR 0x00 then \<lparr>bracketLevel = lvl, quote = CHR 0x00, escaped = False, split = False\<rparr>
         else \<lparr>bracketLevel = lvl, quote = c, escaped = False, split = False\<rparr>)
      else if q = CHR 0x00 then
        (if c = CHR ''('' then \<lparr>bracketLevel = lvl + 1, quote = q, escaped = False, split = False\<rparr>
         else if c = CHR '')'' then \<lparr>bracketLevel = lvl - 1, quote = q, escaped = False, split = False\<rparr>
         else if lvl = 0 then
           (if c = CHR '','' then \<lparr>bracketLevel = lvl, quote = q, escaped = False, split = True\<rparr>
            else \<lparr>bracketLevel = lvl, quote = q, escaped = False, split = False\<rparr>)
         else \<lparr>bracketLevel = lvl, quote = q, escaped = False, split = False\<rparr>)
      else \<lparr>bracketLevel = lvl, quote = q, escaped = False, split = False\<rparr>)"

text \<open>
  \<^verbatim>\<open>next\<close>: the character after the current one, \<open>CHR 0\<close> at the end of the body.
\<close>

definition nextRune :: "string \<Rightarrow> char" where
  "nextRune rest = (case rest of [] \<Rightarrow> CHR 0x00 | n # _ \<Rightarrow> n)"

text \<open>
  The loop \<^verbatim>\<open>for i := 0; i < len(ddlBodyRunes); i++\<close> over the rest of the body. It ends with the error of
  an unbalanced bracket, or with the final \<^verbatim>\<open>bracketLevel\<close>, \<^verbatim>\<open>buf\<close> and \<^verbatim>\<open>fields\<close>.
\<close>

function scanBody ::
  "string \<Rightarrow> int \<Rightarrow> char \<Rightarrow> string \<Rightarrow> string list \<Rightarrow> error + (int \<times> string \<times> string list)" where
  "scanBody [] lvl q buf fs = Inr (lvl, buf, fs)"
| "scanBody (c # rest) lvl q buf fs =
     (let s = step c (nextRune rest) lvl q in
      if split s then scanBody rest (bracketLevel s) (quote s) [] (fs @ [TrimSpace buf])
      else if bracketLevel s < 0 then Inl (Errorf ''invalid DDL, unbalanced brackets'')
      else if escaped s then scanBody (tl rest) (bracketLevel s) (quote s) (buf @ [c] @ [c]) fs
      else scanBody rest (bracketLevel s) (quote s) (buf @ [c]) fs)"
  by pat_completeness auto
termination
  by (relation "measure (\<lambda>(s, lvl, q, buf, fs). length s)") auto

text \<open>
  \<^verbatim>\<open>type sqliteDDL struct\<close> (the field \<^verbatim>\<open>fields\<close> is \<open>fields_ddl\<close> here).
\<close>

record sqliteDDL =
  head :: string
  fields_ddl :: "string list"

text \<open>
  \<^verbatim>\<open>func sqliteParseDDL(sql string) (*sqliteDDL, error)\<close>.
\<close>

definition sqliteParseDDL :: "string \<Rightarrow> error + sqliteDDL" where
  "sqliteParseDDL sql =
     (case findCreateTable sql of
        None \<Rightarrow> Inl (Errorf ''invalid DDL'')
      | Some (ddlHead, ddlBody) \<Rightarrow>
         (case scanBody ddlBody 0 (CHR 0x00) [] [] of
            Inl e \<Rightarrow> Inl e
          | Inr (lvl, buf, fs) \<Rightarrow>
             if lvl \<noteq> 0 then Inl (Errorf ''invalid DDL, unbalanced brackets'')
             else Inr \<lparr>head = ddlHead, fields_ddl = (if buf \<noteq> [] then fs @ [TrimSpace buf] else fs)\<rparr>))"

text \<open>
  A match of \<^verbatim>\<open>^["`]?([\w\d]+)["`]?\<close> on a clause: submatch 1.
\<close>

definition columnName :: "string \<Rightarrow> string option" where
  "columnName f =
     (let name = takeWhile isWord (snd (optQuote f)) in
      if name = [] then None else Some name)"

text \<open>
  The test of \<^verbatim>\<open>getColumns\<close> for \<^verbatim>\<open>PRIMARY KEY\<close>, \<^verbatim>\<open>CHECK\<close> and \<^verbatim>\<open>CONSTRAINT\<close> clauses, on the upper-cased clause.
\<close>

definition isTableClause :: "string \<Rightarrow> bool" where
  "isTableClause f =
     (let fUpper = map upperASCII f in
      HasPrefix fUpper ''PRIMARY KEY'' \<or> HasPrefix fUpper ''CHECK'' \<or> HasPrefix fUpper ''CONSTRAINT'')"

text \<open>
  The loop of \<^verbatim>\<open>getColumns\<close> over the clauses.
\<close>

fun columnsOf :: "string list \<Rightarrow> string list" where
  "columnsOf [] = []"
| "columnsOf (f # fs) =
     (if isTableClause f then columnsOf fs
      else (case columnName f of
              Some m \<Rightarrow> (''`'' @ m @ ''`'') # columnsOf fs
            | None \<Rightarrow> columnsOf fs))"

text \<open>
  \<^verbatim>\<open>func (p *sqliteDDL) getColumns() []string\<close>.
\<close>

definition getColumns :: "sqliteDDL \<Rightarrow> string list" where
  "getColumns p = columnsOf (fields_ddl p)"


section \<open>Table recreation\<close>

text \<open>
  The package \<^verbatim>\<open>regexp\<close> is a parameter of the procedures below: \<^verbatim>\<open>regexp.Compile\<close> is a function
  from the text of a pattern to an error or a compiled expression, and a compiled expression is taken
  as its method \<^verbatim>\<open>ReplaceAllString(src, repl)\<close>.
\<close>

type_synonym regexp = "string \<Rightarrow> string \<Rightarrow> string"

type_synonym compiler = "string \<Rightarrow> error + regexp"

text \<open>
  The texts of the patterns that the dialect compiles. The name of the table or of the column is
  pasted into the text as it is: \<^verbatim>\<open>" ('|`|\"| )" + table + "('|`|\"| ) "\<close> in \<^verbatim>\<open>recreateTable\<close>,
  \<^verbatim>\<open>"(`|'|\"| |\\[)" + name + "(`|'|\"| |\\]) .*?,"\<close> in \<^verbatim>\<open>DropColumn\<close> and
  \<^verbatim>\<open>"(`|'|\"| )" + f.name + "(`|'|\"| ) .*?,"\<close> in \<^verbatim>\<open>AlterColumn\<close>.
\<close>

definition tablePattern :: "string \<Rightarrow> string" where
  "tablePattern table = '' ('|`|\"| )'' @ table @ ''('|`|\"| ) ''"

definition dropColumnPattern :: "string \<Rightarrow> string" where
  "dropColumnPattern name =
     ''(`|'|\"| |'' @ [CHR 0x5C] @ ''[)'' @ name @ ''(`|'|\"| |'' @ [CHR 0x5C] @ ''])'' @ '' .*?,''"

definition alterColumnPattern :: "string \<Rightarrow> string" where
  "alterColumnPattern name = ''(`|'|\"| )'' @ name @ ''(`|'|\"| )'' @ '' .*?,''"

text \<open>
  A statement passed to \<^verbatim>\<open>Exec\<close>: the SQL text and its arguments.
\<close>

type_synonym stmt = "string \<times> string list"

text \<open>
  The connection behind the SQLite dialect, for the table-recreate procedure: \<open>rawDDLOf\<close> is what
  the catalog query of \<^verbatim>\<open>getRawDDL\<close> returns for a table, \<open>execFails done q\<close> is the error of \<^verbatim>\<open>Exec\<close> on the
  statement \<open>q\<close> after the statements \<open>done\<close>, and \<open>executed\<close> lists the statements that succeeded.
\<close>

record sqlitedb =
  rawDDLOf :: "string \<Rightarrow> error + string"
  execFails :: "stmt list \<Rightarrow> stmt \<Rightarrow> error option"
  executed :: "stmt list"

text \<open>
  \<^verbatim>\<open>p.Exec(query, args...)\<close>.
\<close>

definition Exec :: "sqlitedb \<Rightarrow> string \<Rightarrow> string list \<Rightarrow> error option \<times> sqlitedb" where
  "Exec d query args =
     (case execFails d (executed d) (query, args) of
        Some e \<Rightarrow> (Some e, d)
      | None \<Rightarrow> (None, d\<lparr>executed := executed d @ [(query, args)]\<rparr>))"

text \<open>
  \<^verbatim>\<open>func (p *Sqlite) getRawDDL(table string) (createSQL string, err error)\<close>.
\<close>

definition getRawDDL :: "sqlitedb \<Rightarrow> string \<Rightarrow> error + string" where
  "getRawDDL d table = rawDDLOf d table"

text \<open>
  The loop \<^verbatim>\<open>for _, query := range queries\<close> of \<^verbatim>\<open>recreateTable\<close>.
\<close>

fun execQueries :: "sqlitedb \<Rightarrow> string list \<Rightarrow> error option \<times> sqlitedb" where
  "execQueries d [] = (None, d)"
| "execQueries d (query # queries) =
     (case Exec d query [] of
        (Some e, d1) \<Rightarrow> (Some e, d1)
      | (None, d1) \<Rightarrow> execQueries d1 queries)"

text \<open>
  The slice \<^verbatim>\<open>queries\<close> of \<^verbatim>\<open>recreateTable\<close>.
\<close>

definition recreateQueries :: "string \<Rightarrow> string \<Rightarrow> string list \<Rightarrow> string list" where
  "recreateQueries table newTableName columns =
     [''INSERT INTO `'' @ newTableName @ ''`('' @ Join columns '','' @ '') SELECT ''
        @ Join columns '','' @ '' FROM `'' @ table @ ''`'',
      ''DROP TABLE `'' @ table @ ''`'',
      ''ALTER TABLE `'' @ newTableName @ ''` RENAME TO `'' @ table @ ''`'']"

text \<open>
  \<^verbatim>\<open>func (p *Sqlite) recreateTable(o *SqlOptions, getCreateSQL func(rawDDL string) (...)) error\<close>, with
  \<open>table\<close> for \<^verbatim>\<open>o.Table()\<close> and \<open>compile\<close> for \<^verbatim>\<open>regexp.Compile\<close>.
\<close>

definition recreateTable ::
  "compiler \<Rightarrow> sqlitedb \<Rightarrow> string \<Rightarrow> (string \<Rightarrow> error + string \<times> string list)
   \<Rightarrow> error option \<times> sqlitedb" where
  "recreateTable compile d table getCreateSQL =
     (case getRawDDL d table of
        Inl e \<Rightarrow> (Some e, d)
      | Inr rawDDL \<Rightarrow>
         (let newTableName = table @ ''__temp'' in
          (case getCreateSQL rawDDL of
             Inl e \<Rightarrow> (Some e, d)
           | Inr (createSQL0, sqlArgs) \<Rightarrow>
              if createSQL0 = [] then (None, d)
              else
                (case compile (tablePattern table) of
                   Inl e \<Rightarrow> (Some e, d)
                 | Inr tableReg \<Rightarrow>
                    (let createSQL = tableReg createSQL0 ('' `'' @ newTableName @ ''` '') in
                     (case sqliteParseDDL createSQL of
                        Inl e \<Rightarrow> (Some e, d)
                      | Inr createDDL \<Rightarrow>
                         (let columns = getColumns createDDL in
                          (case Exec d createSQL sqlArgs of
                             (Some e, d1) \<Rightarrow> (Some e, d1)
                           | (None, d1) \<Rightarrow>
                              execQueries d1 (recreateQueries table newTableName columns)))))))))"

text \<open>
  \<^verbatim>\<open>func (p *Sqlite) DropColumn(field string, o *SqlOptions) error\<close>, and the function that it passes to
  \<^verbatim>\<open>recreateTable\<close>.
\<close>

definition dropColumnSQL :: "compiler \<Rightarrow> string \<Rightarrow> string \<Rightarrow> error + string \<times> string list" where
  "dropColumnSQL compile field rawDDL =
     (case compile (dropColumnPattern field) of
        Inl e \<Rightarrow> Inl e
      | Inr reg \<Rightarrow> Inr (reg rawDDL [], []))"

definition DropColumn :: "compiler \<Rightarrow> sqlitedb \<Rightarrow> string \<Rightarrow> string \<Rightarrow> error option \<times> sqlitedb" where
  "DropColumn compile d field table = recreateTable compile d table (dropColumnSQL compile field)"

text \<open>
  The four statements of a table recreation, in order: create the temporary table, copy the rows,
  drop the original table, rename the temporary table.
\<close>

definition recreateSteps :: "string \<Rightarrow> string \<Rightarrow> string list \<Rightarrow> string list \<Rightarrow> stmt list" where
  "recreateSteps table createSQL sqlArgs columns =
     (createSQL, sqlArgs) # map (\<lambda>q. (q, [])) (recreateQueries table (table @ ''__temp'') columns)"

text \<open>
  The four statements as the specification describes them: the table name is rewritten first, the
  column list is computed from the rewritten statement, before the mutation, and then the mutation is
  applied to the rewritten statement.
\<close>

definition recreateSteps_spec ::
  "regexp \<Rightarrow> string \<Rightarrow> string \<Rightarrow> (string \<Rightarrow> string \<times> string list) \<Rightarrow> stmt list" where
  "recreateSteps_spec tableReg table rawDDL mutate =
     (let renamed = tableReg rawDDL ('' `'' @ table @ ''__temp'' @ ''` '');
          columnsBefore = (case sqliteParseDDL renamed of Inr d \<Rightarrow> getColumns d | Inl e \<Rightarrow> [])
      in recreateSteps table (fst (mutate renamed)) (snd (mutate renamed)) columnsBefore)"

section \<open>Automigrate\<close>

text \<open>
  The schema operations of the dialect are taken at the level of the driver interface. What an
  operation does to the database, and what the catalog queries answer, belongs to the database; it is a
  parameter of \<open>AutoMigrate\<close>.
\<close>

text \<open>
  \<^verbatim>\<open>type FieldOptions struct\<close>, with the fields that the migration and the column definitions read:
  \<^verbatim>\<open>name\<close>, \<^verbatim>\<open>driverDataType\<close>, \<^verbatim>\<open>size *int64\<close> (here \<open>fsize\<close>), \<^verbatim>\<open>notNull *bool\<close>, \<^verbatim>\<open>unique *bool\<close> and
  \<^verbatim>\<open>defaultValue\<close>. A nil pointer is \<open>None\<close>.
\<close>

record FieldOptions =
  name :: string
  driverDataType :: string
  fsize :: "int option"
  notNull :: "bool option"
  unique :: "bool option"
  defaultValue :: string

text \<open>
  \<^verbatim>\<open>type field struct\<close>: it embeds the field options and carries the primary-key flag and the index
  flag.
\<close>

record field = FieldOptions +
  primaryKey :: bool
  indexKey :: bool

text \<open>
  \<^verbatim>\<open>util.Int64Value\<close> and \<^verbatim>\<open>util.BoolValue\<close>: the value behind the pointer, the zero value for nil.
\<close>

definition Int64Value :: "int option \<Rightarrow> int" where
  "Int64Value p = (case p of None \<Rightarrow> 0 | Some v \<Rightarrow> v)"

definition BoolValue :: "bool option \<Rightarrow> bool" where
  "BoolValue p = (case p of None \<Rightarrow> False | Some v \<Rightarrow> v)"

text \<open>
  The schema operations of the dialect driver interface, each on a table (and a column or an index of
  it).
\<close>

datatype ddl_op =
    OpCreateTable string
  | OpAddColumn string string
  | OpAlterColumn string string
  | OpCreateIndex string string
  | OpDropTable string
  | OpDropColumn string string
  | OpDropIndex string string

text \<open>
  The dialect driver as \<^verbatim>\<open>AutoMigrate\<close> uses it, over a database of type \<open>'db\<close>: the three catalog queries, and
  \<open>run\<close>, which carries out one schema operation and returns its error and the database afterwards.
\<close>

record 'db dialect =
  HasTable :: "'db \<Rightarrow> string \<Rightarrow> bool"
  ColumnTypes :: "'db \<Rightarrow> string \<Rightarrow> error + FieldOptions list"
  HasIndex :: "'db \<Rightarrow> string \<Rightarrow> string \<Rightarrow> bool"
  run :: "ddl_op \<Rightarrow> 'db \<Rightarrow> error option \<times> 'db"

text \<open>
  The database together with the list of the schema operations attempted on it so far.
\<close>

type_synonym 'db session = "'db \<times> ddl_op list"

text \<open>
  Carry out one schema operation and record it.
\<close>

definition issue :: "'db dialect \<Rightarrow> ddl_op \<Rightarrow> 'db session \<Rightarrow> error option \<times> 'db session" where
  "issue drv op st = (case run drv op (fst st) of (e, db') \<Rightarrow> (e, (db', snd st @ [op])))"

text \<open>
  \<^verbatim>\<open>p.AddColumn(field, o)\<close>, \<^verbatim>\<open>p.AlterColumn(field, o)\<close> and \<^verbatim>\<open>p.CreateIndex(name, o)\<close>.
\<close>

definition AddColumn :: "'db dialect \<Rightarrow> string \<Rightarrow> string \<Rightarrow> 'db session \<Rightarrow> error option \<times> 'db session" where
  "AddColumn drv fld table st = issue drv (OpAddColumn table fld) st"

definition AlterColumn :: "'db dialect \<Rightarrow> string \<Rightarrow> string \<Rightarrow> 'db session \<Rightarrow> error option \<times> 'db session" where
  "AlterColumn drv fld table st = issue drv (OpAlterColumn table fld) st"

definition CreateIndex :: "'db dialect \<Rightarrow> string \<Rightarrow> string \<Rightarrow> 'db session \<Rightarrow> error option \<times> 'db session" where
  "CreateIndex drv nm table st = issue drv (OpCreateIndex table nm) st"

text \<open>
  The deferred functions of \<^verbatim>\<open>CreateTable\<close>, in the order they run: each creates its index only if
  \<^verbatim>\<open>err\<close> is still nil.
\<close>

fun runDeferred ::
  "'db dialect \<Rightarrow> string \<Rightarrow> field list \<Rightarrow> error option \<Rightarrow> 'db session \<Rightarrow> error option \<times> 'db session" where
  "runDeferred drv table [] err0 st = (err0, st)"
| "runDeferred drv table (f # fs) err0 st =
     (if err0 = None then
        (case CreateIndex drv (name f) table st of (err1, st1) \<Rightarrow> runDeferred drv table fs err1 st1)
      else runDeferred drv table fs err0 st)"

text \<open>
  \<^verbatim>\<open>func (p *Sqlite) CreateTable(o *SqlOptions) (err error)\<close>: the \<^verbatim>\<open>CREATE TABLE\<close> statement, then the
  deferred index creations, last registered first.
\<close>

definition CreateTable :: "'db dialect \<Rightarrow> string \<Rightarrow> field list \<Rightarrow> 'db session \<Rightarrow> error option \<times> 'db session" where
  "CreateTable drv table flds st =
     (case issue drv (OpCreateTable table) st of
        (err0, st1) \<Rightarrow> runDeferred drv table (rev (filter indexKey flds)) err0 st1)"

text \<open>
  \<^verbatim>\<open>func (p *Sqlite) MigrateColumn(expect, actual *FieldOptions, o *SqlOptions) error\<close>.
\<close>

definition MigrateColumn ::
  "'db dialect \<Rightarrow> 'a FieldOptions_scheme \<Rightarrow> FieldOptions \<Rightarrow> string \<Rightarrow> 'db session \<Rightarrow> error option \<times> 'db session" where
  "MigrateColumn drv expect actual table st =
     (let alterColumn = False;
          alterColumn = (if fsize actual \<noteq> None \<and> Int64Value (fsize expect) \<noteq> Int64Value (fsize actual)
                         then True else alterColumn);
          alterColumn = (if notNull expect \<noteq> None \<and> BoolValue (notNull expect) \<noteq> BoolValue (notNull actual)
                         then True else alterColumn)
      in if alterColumn then AlterColumn drv (name expect) table st else (None, st))"

text \<open>
  The first loop of \<^verbatim>\<open>AutoMigrate\<close>, over the expected fields; \<^verbatim>\<open>find\<close> is the inner loop with its
  \<^verbatim>\<open>break\<close>.
\<close>

fun migrateColumns ::
  "'db dialect \<Rightarrow> string \<Rightarrow> FieldOptions list \<Rightarrow> field list \<Rightarrow> 'db session \<Rightarrow> error option \<times> 'db session" where
  "migrateColumns drv table actualFields [] st = (None, st)"
| "migrateColumns drv table actualFields (expectField # rest) st =
     (case find (\<lambda>acturalField. name acturalField = name expectField) actualFields of
        None \<Rightarrow>
          (case AddColumn drv (name expectField) table st of
             (Some e, st1) \<Rightarrow> (Some e, st1)
           | (None, st1) \<Rightarrow> migrateColumns drv table actualFields rest st1)
      | Some foundField \<Rightarrow>
          (case MigrateColumn drv expectField foundField table st of
             (Some e, st1) \<Rightarrow> (Some e, st1)
           | (None, st1) \<Rightarrow> migrateColumns drv table actualFields rest st1))"

text \<open>
  The second loop of \<^verbatim>\<open>AutoMigrate\<close>.
\<close>

fun createMissingIndexes ::
  "'db dialect \<Rightarrow> string \<Rightarrow> field list \<Rightarrow> 'db session \<Rightarrow> error option \<times> 'db session" where
  "createMissingIndexes drv table [] st = (None, st)"
| "createMissingIndexes drv table (f # fs) st =
     (if indexKey f \<and> \<not> HasIndex drv (fst st) (name f) table then
        (case CreateIndex drv (name f) table st of
           (Some e, st1) \<Rightarrow> (Some e, st1)
         | (None, st1) \<Rightarrow> createMissingIndexes drv table fs st1)
      else createMissingIndexes drv table fs st)"

text \<open>
  \<^verbatim>\<open>actualFields, _ := p.ColumnTypes(o)\<close>: the error is dropped, and the slice is then nil.
\<close>

definition actualColumns :: "'db dialect \<Rightarrow> 'db \<Rightarrow> string \<Rightarrow> FieldOptions list" where
  "actualColumns drv dbs table = (case ColumnTypes drv dbs table of Inl e \<Rightarrow> [] | Inr xs \<Rightarrow> xs)"

text \<open>
  \<^verbatim>\<open>func (p *Sqlite) AutoMigrate(sample interface{}, opts ...SqlOption) error\<close>, with \<open>table\<close> for
  \<^verbatim>\<open>o.Table()\<close> and \<open>expectFields\<close> for \<^verbatim>\<open>tableFields(o.sample, p).list\<close>.
\<close>

definition AutoMigrate ::
  "'db dialect \<Rightarrow> string \<Rightarrow> field list \<Rightarrow> 'db session \<Rightarrow> error option \<times> 'db session" where
  "AutoMigrate drv table expectFields st =
     (if \<not> HasTable drv (fst st) table then CreateTable drv table expectFields st
      else
        (let actualFields = actualColumns drv (fst st) table in
         (case migrateColumns drv table actualFields expectFields st of
            (Some e, st1) \<Rightarrow> (Some e, st1)
          | (None, st1) \<Rightarrow> createMissingIndexes drv table expectFields st1)))"

text \<open>
  When \<^verbatim>\<open>MigrateColumn\<close> alters a column.
\<close>

definition needsAlter :: "'a FieldOptions_scheme \<Rightarrow> FieldOptions \<Rightarrow> bool" where
  "needsAlter expect actual =
     ((fsize actual \<noteq> None \<and> Int64Value (fsize expect) \<noteq> Int64Value (fsize actual))
      \<or> (notNull expect \<noteq> None \<and> BoolValue (notNull expect) \<noteq> BoolValue (notNull actual)))"

text \<open>
  The column operations a run plans from the introspected columns: for each desired column, add it if no
  introspected column has its name, alter it if the one found needs it, and nothing otherwise.
\<close>

definition columnOp :: "string \<Rightarrow> FieldOptions list \<Rightarrow> field \<Rightarrow> ddl_op list" where
  "columnOp table actual e =
     (case find (\<lambda>a. name a = name e) actual of
        None \<Rightarrow> [OpAddColumn table (name e)]
      | Some a \<Rightarrow> if needsAlter e a then [OpAlterColumn table (name e)] else [])"

definition columnOps :: "string \<Rightarrow> FieldOptions list \<Rightarrow> field list \<Rightarrow> ddl_op list" where
  "columnOps table actual desired = concat (map (columnOp table actual) desired)"






text \<open>
  The database shows the desired schema: the table exists, every desired column is introspected under
  its name and needs no alteration, and every index-flagged column has its index.
\<close>

definition settled :: "'db dialect \<Rightarrow> 'db \<Rightarrow> string \<Rightarrow> field list \<Rightarrow> bool" where
  "settled drv dbs table desired =
     (HasTable drv dbs table
      \<and> (\<exists>actual. ColumnTypes drv dbs table = Inr actual
            \<and> (\<forall>e \<in> set desired. \<exists>a. find (\<lambda>a. name a = name e) actual = Some a \<and> \<not> needsAlter e a))
      \<and> (\<forall>e \<in> set desired. indexKey e \<longrightarrow> HasIndex drv dbs (name e) table))"

subsection \<open>Column definitions of the SQLite dialect\<close>

text \<open>
  \<^verbatim>\<open>func (p *Sqlite) FullDataTypeOf(field *FieldOptions) string\<close>.
\<close>

definition FullDataTypeOf :: "'a FieldOptions_scheme \<Rightarrow> string" where
  "FullDataTypeOf fld =
     (let SQL = driverDataType fld;
          SQL = (if notNull fld = Some True then SQL @ '' NOT NULL'' else SQL);
          SQL = (if unique fld = Some True then SQL @ '' UNIQUE'' else SQL);
          SQL = (if defaultValue fld \<noteq> [] then SQL @ '' DEFAULT '' @ defaultValue fld else SQL)
      in SQL)"

text \<open>
  \<^verbatim>\<open>strings.TrimSuffix\<close>, and the statement that \<^verbatim>\<open>CreateTable\<close> builds and executes. Its variable
  \<^verbatim>\<open>hasPrimaryKeyInDataType\<close> is computed and never read.
\<close>

definition TrimSuffix :: "string \<Rightarrow> string \<Rightarrow> string" where
  "TrimSuffix s suff =
     (if length suff \<le> length s \<and> drop (length s - length suff) s = suff
      then take (length s - length suff) s else s)"

definition createTableSQL :: "string \<Rightarrow> field list \<Rightarrow> string" where
  "createTableSQL table flds =
     (let SQL = ''CREATE TABLE `'' @ table @ ''` ('';
          SQL = SQL @ concat (map (\<lambda>f. ''`'' @ name f @ ''` '' @ FullDataTypeOf f @ '','') flds);
          primaryKeys = map (\<lambda>f. ''`'' @ name f @ ''`'') (filter primaryKey flds);
          SQL = (if 0 < length primaryKeys
                 then SQL @ ''PRIMARY KEY ('' @ Join primaryKeys '','' @ ''),'' else SQL);
          SQL = TrimSuffix SQL '',''
      in SQL @ '')'')"

text \<open>
  \<^verbatim>\<open>func (p *Sqlite) AlterColumn(field string, o *SqlOptions) error\<close>, and the function that it passes to
  \<^verbatim>\<open>recreateTable\<close>. This is the method behind the driver call \<open>AlterColumn\<close> above; it is named
  \<open>Sqlite_AlterColumn\<close> to keep the two apart. The source of \<^verbatim>\<open>tableFieldLookup\<close> is not among the files
  at hand: \<open>lookup\<close> stands for \<^verbatim>\<open>tableFieldLookup(o.sample, field, p)\<close> as a function of the column
  name, \<open>None\<close> for nil.
\<close>

definition alterColumnSQL ::
  "compiler \<Rightarrow> (string \<Rightarrow> field option) \<Rightarrow> string \<Rightarrow> string \<Rightarrow> error + string \<times> string list" where
  "alterColumnSQL compile lookup fld rawDDL =
     (case lookup fld of
        None \<Rightarrow> Inl (Errorf (''failed to look up field with name: '' @ fld))
      | Some f \<Rightarrow>
         (case compile (alterColumnPattern (name f)) of
            Inl e \<Rightarrow> Inl e
          | Inr reg \<Rightarrow> Inr (reg rawDDL (''`'' @ name f @ ''` '' @ FullDataTypeOf f @ '',''), [])))"

definition Sqlite_AlterColumn ::
  "compiler \<Rightarrow> (string \<Rightarrow> field option) \<Rightarrow> sqlitedb \<Rightarrow> string \<Rightarrow> string
   \<Rightarrow> error option \<times> sqlitedb" where
  "Sqlite_AlterColumn compile lookup d fld table =
     recreateTable compile d table (alterColumnSQL compile lookup fld)"

section \<open>Test fixtures\<close>

text \<open>
  A binding for plain elements whose scan returns the raw row itself, and a binding for
  struct elements whose row scan always fails.
\<close>

definition plainBinding :: "(nat, unit, nat) binding" where
  "plainBinding =
     \<lparr>zero = 0, structMode = False, Scan = (\<lambda>r v. Inr r), Columns = None, bind = (\<lambda>v. None),
      destScan = (\<lambda>r v. (None, r, [])), isNil = (\<lambda>f v. False), allocate = (\<lambda>f v. v),
      isTime = (\<lambda>f. False), setTime = (\<lambda>f i v. v), jsonUnmarshal = (\<lambda>js f v. (None, v))\<rparr>"

definition failingBinding :: "(nat, unit, nat) binding" where
  "failingBinding =
     \<lparr>zero = 0, structMode = True, Scan = (\<lambda>r v. Inr r), Columns = None, bind = (\<lambda>v. None),
      destScan = (\<lambda>r v. (Some (External ''converting NULL to int is unsupported''), v, [])),
      isNil = (\<lambda>f v. False), allocate = (\<lambda>f v. v),
      isTime = (\<lambda>f. False), setTime = (\<lambda>f i v. v), jsonUnmarshal = (\<lambda>js f v. (None, v))\<rparr>"

definition somePkg :: "nat sqlpkg" where
  "somePkg = \<lparr>sqlOpen = (\<lambda>d s. Inr 7), Ping = (\<lambda>h. None)\<rparr>"

definition someFactories :: "string \<rightharpoonup> (nat, string) DBFactory" where
  "someFactories = [''sqlite3'' \<mapsto> (\<lambda>d. ''Sqlite'')]"

definition someTxdb :: "string list \<Rightarrow> txdb" where
  "someTxdb bad =
     \<lparr>beginErr = None, execErr = (\<lambda>done q. if q \<in> set bad then Some (External ''syntax error'') else None),
      commitErr = None, txlog = [], pending = [], durable = []\<rparr>"

text \<open>
  A script with comments, an empty line, a statement over four lines, two one-line statements and a
  line that starts no command.
\<close>

definition script1 :: string where
  "script1 = ''-- schema'' @ [CHR 0x0A] @ ''CREATE TABLE t ('' @ [CHR 0x0A] @ ''  a int,'' @ [CHR 0x0A]
             @ ''-- the text'' @ [CHR 0x0A] @ ''  b text'' @ [CHR 0x0A] @ '');'' @ [CHR 0x0A] @ [CHR 0x0A]
             @ ''INSERT INTO t VALUES (1);'' @ [CHR 0x0A] @ ''select 1;'' @ [CHR 0x0A]
             @ ''DROP TABLE u;'' @ [CHR 0x0A]"

text \<open>The statement of the specification's tokenizer example, and its parse.\<close>

definition ddl3 :: string where
  "ddl3 = ''CREATE TABLE \"t\" (`a` INT, `b` TEXT DEFAULT 'x,y', CONSTRAINT \"pk\" PRIMARY KEY(`a`))''"

definition ddl3Parsed :: sqliteDDL where
  "ddl3Parsed =
     \<lparr>head = ''CREATE TABLE \"t\"'',
      fields_ddl = [''`a` INT'', ''`b` TEXT DEFAULT 'x,y'' @ [CHR 0x27],
                    ''CONSTRAINT \"pk\" PRIMARY KEY(`a`)'']\<rparr>"




text \<open>
  The package \<^verbatim>\<open>regexp\<close> on the patterns of the dialect, for a table \<open>table\<close> and a column \<open>column\<close>
  whose names consist of letters, digits and underscores, so that the name in the pattern matches
  itself, and for replacement texts without \<^verbatim>\<open>$\<close>, which are inserted as they are. The matches are
  replaced from left to right and do not overlap; the lazy \<^verbatim>\<open>.*?\<close> of the column patterns ends at the
  first comma of the line. \<open>matchTableLen\<close> and \<open>matchColumnLen\<close> give the length of a match at the
  start of the text, or \<open>0\<close>. Other names and other patterns do not occur in the examples, and are
  refused.
\<close>

definition matchTableLen :: "string \<Rightarrow> string \<Rightarrow> nat" where
  "matchTableLen table s =
     (case s of
        sp # a # r1 \<Rightarrow>
          if sp = CHR '' '' \<and> a \<in> set [CHR 0x27, CHR 0x60, CHR 0x22, CHR '' '']
             \<and> take (length table) r1 = table then
            (case drop (length table) r1 of
               b # sp2 # r2 \<Rightarrow>
                 if b \<in> set [CHR 0x27, CHR 0x60, CHR 0x22, CHR '' ''] \<and> sp2 = CHR '' ''
                 then length table + 4 else 0
             | _ \<Rightarrow> 0)
          else 0
      | _ \<Rightarrow> 0)"

function replaceTable :: "string \<Rightarrow> string \<Rightarrow> string \<Rightarrow> string" where
  "replaceTable table repl [] = []"
| "replaceTable table repl (c # cs) =
     (let n = matchTableLen table (c # cs) in
      if 0 < n then repl @ replaceTable table repl (drop n (c # cs))
      else c # replaceTable table repl cs)"
  by pat_completeness auto
termination
  by (relation "measure (\<lambda>(table, repl, s). length s)") auto

definition matchColumnLen :: "string \<Rightarrow> string \<Rightarrow> string \<Rightarrow> string \<Rightarrow> nat" where
  "matchColumnLen opening closing column s =
     (case s of
        a # r1 \<Rightarrow>
          if a \<in> set opening \<and> take (length column) r1 = column then
            (case drop (length column) r1 of
               b # sp # r2 \<Rightarrow>
                 if b \<in> set closing \<and> sp = CHR '' '' then
                   (let seg = takeWhile (\<lambda>c. c \<noteq> CHR '','' \<and> c \<noteq> CHR 0x0A) r2 in
                    if take 1 (drop (length seg) r2) = '','' then length column + length seg + 4 else 0)
                 else 0
             | _ \<Rightarrow> 0)
          else 0
      | _ \<Rightarrow> 0)"

function replaceColumn :: "string \<Rightarrow> string \<Rightarrow> string \<Rightarrow> string \<Rightarrow> string \<Rightarrow> string" where
  "replaceColumn opening closing column repl [] = []"
| "replaceColumn opening closing column repl (c # cs) =
     (let n = matchColumnLen opening closing column (c # cs) in
      if 0 < n then repl @ replaceColumn opening closing column repl (drop n (c # cs))
      else c # replaceColumn opening closing column repl cs)"
  by pat_completeness auto
termination
  by (relation "measure (\<lambda>(opening, closing, column, repl, s). length s)") auto

definition wordRegexp :: "string \<Rightarrow> string \<Rightarrow> compiler" where
  "wordRegexp table column pattern =
     (if \<not> (list_all isWord table \<and> list_all isWord column) then Inl (External ''not covered'')
      else if pattern = tablePattern table then Inr (\<lambda>src repl. replaceTable table repl src)
      else if pattern = dropColumnPattern column then
        Inr (\<lambda>src repl. replaceColumn [CHR 0x60, CHR 0x27, CHR 0x22, CHR '' '', CHR ''['']
                           [CHR 0x60, CHR 0x27, CHR 0x22, CHR '' '', CHR '']''] column repl src)
      else if pattern = alterColumnPattern column then
        Inr (\<lambda>src repl. replaceColumn [CHR 0x60, CHR 0x27, CHR 0x22, CHR '' '']
                           [CHR 0x60, CHR 0x27, CHR 0x22, CHR '' ''] column repl src)
      else Inl (External ''error parsing regexp''))"

text \<open>
  A connection whose catalog holds the table \<open>t\<close> with the given statement, and on which the listed
  statements fail; a table of three columns; the expression compiled for the table name; the
  mutation of \<open>DropColumn\<close> for the column \<open>b\<close>, its result on that table, and the parse of the renamed
  result; a mutation that passes the statement it is given as the argument of the new statement
  (\<open>echoDDL\<close>, \<open>echoSQL\<close>); the removal of the column \<open>b\<close> as a total function; a compiler that
  refuses every pattern; a mutation that returns the empty text.
\<close>

definition tableDB :: "string \<Rightarrow> stmt list \<Rightarrow> sqlitedb" where
  "tableDB ddl bad =
     \<lparr>rawDDLOf = (\<lambda>t. if t = ''t'' then Inr ddl else Inl (NotFound ''object'')),
      execFails = (\<lambda>done q. if q \<in> set bad then Some (External ''SQL logic error'') else None),
      executed = []\<rparr>"

definition ddlT :: string where
  "ddlT = ''CREATE TABLE `t` (`a` INT,`b` TEXT,`c` INT)''"

definition tableRegT :: regexp where
  "tableRegT = (\<lambda>src repl. replaceTable ''t'' repl src)"

definition dropB :: "string \<Rightarrow> error + string \<times> string list" where
  "dropB = dropColumnSQL (wordRegexp ''t'' ''b'') ''b''"

definition ddlDropped :: string where
  "ddlDropped = ''CREATE TABLE `t` (`a` INT,`c` INT)''"

definition tempDoc :: sqliteDDL where
  "tempDoc = \<lparr>head = ''CREATE TABLE `t__temp`'', fields_ddl = [''`a` INT'', ''`c` INT'']\<rparr>"

definition dropFails :: sqlitedb where
  "dropFails = tableDB ddlT [(''DROP TABLE `t`'', [])]"

definition echoDDL :: "string \<Rightarrow> string \<times> string list" where
  "echoDDL ddl = (ddl, [ddl])"

definition echoSQL :: "string \<Rightarrow> error + string \<times> string list" where
  "echoSQL ddl = Inr (echoDDL ddl)"

definition removeB :: "string \<Rightarrow> string \<times> string list" where
  "removeB ddl =
     (replaceColumn [CHR 0x60, CHR 0x27, CHR 0x22, CHR '' '', CHR ''['']
        [CHR 0x60, CHR 0x27, CHR 0x22, CHR '' '', CHR '']''] ''b'' [] ddl, [])"

definition noRegexp :: compiler where
  "noRegexp pattern = Inl (External ''error parsing regexp'')"

definition noDDL :: "string \<Rightarrow> error + string \<times> string list" where
  "noDDL ddl = Inr ([], [])"

text \<open>
  A reference database for the examples of \<open>AutoMigrate\<close>. It is not the SQLite dialect: on it every
  schema operation takes effect as declared, unless it is listed in \<open>broken\<close>, and introspection
  reports the declared size and nullability. It holds its tables, with the columns that
  introspection reports, and its indexes.
\<close>

record simdb =
  tables :: "string \<rightharpoonup> FieldOptions list"
  indexes :: "(string \<times> string) list"
  broken :: "ddl_op list"

text \<open>
  What introspection reports for a column created or altered from a field definition.
\<close>

definition declared :: "field \<Rightarrow> FieldOptions" where
  "declared f =
     \<lparr>name = name f, driverDataType = driverDataType f, fsize = fsize f, notNull = notNull f,
      unique = None, defaultValue = []\<rparr>"

text \<open>
  The effect of a schema operation on that database. Column and index definitions are looked up by name
  in \<open>sample\<close>; altering a column recreates the table, which drops its indexes.
\<close>

definition simRun :: "field list \<Rightarrow> ddl_op \<Rightarrow> simdb \<Rightarrow> error option \<times> simdb" where
  "simRun sample op d =
     (if op \<in> set (broken d) then (Some (External ''rejected''), d)
      else
        (case op of
           OpCreateTable t \<Rightarrow>
             (case tables d t of
                Some cols \<Rightarrow> (Some (External ''table already exists''), d)
              | None \<Rightarrow> (None, d\<lparr>tables := (tables d)(t \<mapsto> map declared sample)\<rparr>))
         | OpAddColumn t c \<Rightarrow>
             (case find (\<lambda>f. name f = c) sample of
                None \<Rightarrow> (Some (Errorf (''failed to look up field with name: '' @ c)), d)
              | Some f \<Rightarrow>
                 (case tables d t of
                    None \<Rightarrow> (Some (External ''no such table''), d)
                  | Some cols \<Rightarrow>
                     if c \<in> set (map name cols) then (Some (External ''duplicate column name''), d)
                     else (None, d\<lparr>tables := (tables d)(t \<mapsto> cols @ [declared f])\<rparr>)))
         | OpAlterColumn t c \<Rightarrow>
             (case find (\<lambda>f. name f = c) sample of
                None \<Rightarrow> (Some (Errorf (''failed to look up field with name: '' @ c)), d)
              | Some f \<Rightarrow>
                 (case tables d t of
                    None \<Rightarrow> (Some (External ''no such table''), d)
                  | Some cols \<Rightarrow>
                     (None, d\<lparr>tables := (tables d)(t \<mapsto> map (\<lambda>a. if name a = c then declared f else a) cols),
                              indexes := filter (\<lambda>i. fst i \<noteq> t) (indexes d)\<rparr>)))
         | OpCreateIndex t c \<Rightarrow>
             (case find (\<lambda>f. name f = c) sample of
                None \<Rightarrow> (Some (Errorf (''failed to create index with name '' @ c)), d)
              | Some f \<Rightarrow>
                 if (t, c) \<in> set (indexes d) then (Some (External ''index already exists''), d)
                 else (None, d\<lparr>indexes := (t, c) # indexes d\<rparr>))
         | OpDropTable t \<Rightarrow>
             (None, d\<lparr>tables := (tables d)(t := None),
                      indexes := filter (\<lambda>i. fst i \<noteq> t) (indexes d)\<rparr>)
         | OpDropColumn t c \<Rightarrow>
             (case tables d t of
                None \<Rightarrow> (Some (External ''no such table''), d)
              | Some cols \<Rightarrow>
                 (None, d\<lparr>tables := (tables d)(t \<mapsto> filter (\<lambda>a. name a \<noteq> c) cols),
                          indexes := filter (\<lambda>i. fst i \<noteq> t) (indexes d)\<rparr>))
         | OpDropIndex t c \<Rightarrow> (None, d\<lparr>indexes := filter (\<lambda>i. i \<noteq> (t, c)) (indexes d)\<rparr>)))"

definition simDriver :: "field list \<Rightarrow> simdb dialect" where
  "simDriver sample =
     \<lparr>HasTable = (\<lambda>d t. tables d t \<noteq> None),
      ColumnTypes = (\<lambda>d t. case tables d t of
                              None \<Rightarrow> Inl (External ''no such table'')
                            | Some cols \<Rightarrow> Inr cols),
      HasIndex = (\<lambda>d n t. (t, n) \<in> set (indexes d)),
      run = simRun sample\<rparr>"

text \<open>
  A desired schema of three columns, one of them indexed; a database without the table; a database
  whose table has a narrower \<open>name\<close> column, no \<open>phone\<close> column and a column \<open>legacy\<close> that the
  desired schema does not know.
\<close>

definition userFields :: "field list" where
  "userFields =
     [\<lparr>name = ''id'', driverDataType = ''integer'', fsize = None, notNull = Some True,
       unique = None, defaultValue = [], primaryKey = False, indexKey = False\<rparr>,
      \<lparr>name = ''name'', driverDataType = ''text'', fsize = Some 10, notNull = Some True,
       unique = None, defaultValue = [], primaryKey = False, indexKey = True\<rparr>,
      \<lparr>name = ''phone'', driverDataType = ''text'', fsize = Some 16, notNull = None,
       unique = None, defaultValue = [], primaryKey = False, indexKey = False\<rparr>]"

definition emptyDB :: simdb where
  "emptyDB = \<lparr>tables = Map.empty, indexes = [], broken = []\<rparr>"





text \<open>
  The reference database behind a driver that reports every column as nullable and without a size,
  whatever was declared.
\<close>

definition nullableDriver :: "field list \<Rightarrow> simdb dialect" where
  "nullableDriver sample =
     (simDriver sample)
       \<lparr>ColumnTypes := (\<lambda>d t. case ColumnTypes (simDriver sample) d t of
                                 Inl e \<Rightarrow> Inl e
                               | Inr cols \<Rightarrow> Inr (map (\<lambda>c. c\<lparr>fsize := None, notNull := Some False\<rparr>) cols))\<rparr>"

text \<open>
  A database that stores the \<^verbatim>\<open>CREATE TABLE\<close> statement of its one table \<open>t\<close>, under the SQLite
  dialect: introspection reports a column as \<^verbatim>\<open>NOT NULL\<close> when its definition says so, altering a column
  runs \<open>Sqlite_AlterColumn\<close>, and after the four statements of a recreation the stored statement is the
  one that created the temporary table, under the original name. \<open>Contains\<close> is
  \<^verbatim>\<open>strings.Contains\<close>, and \<open>fieldNamed\<close> looks a field up by its column name.
\<close>

fun Contains :: "string \<Rightarrow> string \<Rightarrow> bool" where
  "Contains [] substr = (substr = [])"
| "Contains (c # cs) substr = (take (length substr) (c # cs) = substr \<or> Contains cs substr)"

definition reportedColumn :: "string \<Rightarrow> FieldOptions" where
  "reportedColumn clause =
     \<lparr>name = (case columnName clause of Some n \<Rightarrow> n | None \<Rightarrow> []),
      driverDataType = [], fsize = None,
      notNull = Some (Contains (map upperASCII clause) ''NOT NULL''),
      unique = None, defaultValue = []\<rparr>"

definition reportedColumns :: "string \<Rightarrow> FieldOptions list" where
  "reportedColumns ddl =
     (case sqliteParseDDL ddl of
        Inl e \<Rightarrow> []
      | Inr doc \<Rightarrow> map reportedColumn (filter (\<lambda>f. \<not> isTableClause f) (fields_ddl doc)))"

definition fieldNamed :: "field list \<Rightarrow> string \<Rightarrow> field option" where
  "fieldNamed sample fld = find (\<lambda>f. name f = fld) sample"

definition storedAfter :: "string \<Rightarrow> stmt list \<Rightarrow> string \<Rightarrow> string" where
  "storedAfter table stmts ddl =
     (case stmts of
        [created, copied, dropped, renamed] \<Rightarrow>
          replaceTable (table @ ''__temp'') ('' `'' @ table @ ''` '') (fst created)
      | _ \<Rightarrow> ddl)"

definition ddlDriver :: "field list \<Rightarrow> string dialect" where
  "ddlDriver sample =
     \<lparr>HasTable = (\<lambda>ddl t. t = ''t''),
      ColumnTypes = (\<lambda>ddl t. Inr (reportedColumns ddl)),
      HasIndex = (\<lambda>ddl n t. False),
      run = (\<lambda>op ddl.
               case op of
                 OpAlterColumn t c \<Rightarrow>
                   (case Sqlite_AlterColumn (wordRegexp t c) (fieldNamed sample) (tableDB ddl []) c t of
                      (e, d) \<Rightarrow> (e, storedAfter t (executed d) ddl))
               | _ \<Rightarrow> (Some (External ''not supported''), ddl))\<rparr>"

text \<open>
  A schema without a primary key, whose table \<open>CreateTable\<close> creates with the statement \<open>ddlT\<close>; the
  same schema with the last column declared \<^verbatim>\<open>NOT NULL\<close>, and with the middle column declared
  \<^verbatim>\<open>NOT NULL\<close>; the statement of the table once its middle column is altered.
\<close>

definition column :: "string \<Rightarrow> string \<Rightarrow> bool option \<Rightarrow> field" where
  "column n ty nn =
     \<lparr>name = n, driverDataType = ty, fsize = None, notNull = nn, unique = None, defaultValue = [],
      primaryKey = False, indexKey = False\<rparr>"

definition tFields :: "field list" where
  "tFields = [column ''a'' ''INT'' None, column ''b'' ''TEXT'' None, column ''c'' ''INT'' None]"

definition tFieldsC :: "field list" where
  "tFieldsC = [column ''a'' ''INT'' None, column ''b'' ''TEXT'' None, column ''c'' ''INT'' (Some True)]"

definition tFieldsB :: "field list" where
  "tFieldsB = [column ''a'' ''INT'' None, column ''b'' ''TEXT'' (Some True), column ''c'' ''INT'' None]"

definition ddlTB :: string where
  "ddlTB = ''CREATE TABLE `t` (`a` INT,`b` TEXT NOT NULL,`c` INT)''"

section \<open>Properties of the row fetches\<close>

text \<open>
  C6. A single-row fetch whose query succeeded and whose result set is empty returns NotFound when
  ignore-not-found is false, and returns success when it is true; in both cases the destination
  is what it was.
\<close>

theorem Row_empty_result:
  "err p = None \<Longrightarrow> rows p = [] \<Longrightarrow>
   Row env p d =
     (if ignoreNotFound p then (None, target_value d)
      else (Some (NotFound ''object''), target_value d))"
  by (simp add: Row_def)

theorem Row_empty_result_witness:
  "Row plainBinding \<lparr>ignoreNotFound = False, maxRows = 1000, rows = [], err = None\<rparr> (Values 5)
     = (Some (NotFound ''object''), 5)
   \<and> Row plainBinding \<lparr>ignoreNotFound = True, maxRows = 1000, rows = [], err = None\<rparr> (Struct True 5)
     = (None, 5)"
  using Row_empty_result [of "\<lparr>ignoreNotFound = False, maxRows = 1000, rows = [], err = None\<rparr>"
                             plainBinding "Values 5"]
        Row_empty_result [of "\<lparr>ignoreNotFound = True, maxRows = 1000, rows = [], err = None\<rparr>"
                             plainBinding "Struct True 5"]
  by simp

text \<open>
  The loops of \<open>Rows\<close> append at most \<open>limit - n\<close> rows when the count \<open>n\<close> is below the
  limit, and exactly one row, if there is one, when it is not.
\<close>

lemma rows_plain_length:
  "n < limit \<Longrightarrow> rows_plain env limit rs n rv = (e, rv') \<Longrightarrow>
   int (length rv') \<le> int (length rv) + (limit - n)"
proof (induction rs arbitrary: n rv)
  case Nil
  then show ?case by simp
next
  case (Cons r rs)
  show ?case
  proof (cases "Scan env r (zero env)")
    case (Inl x)
    with Cons.prems show ?thesis by simp
  next
    case (Inr row)
    show ?thesis
    proof (cases "n + 1 \<ge> limit")
      case True
      with Cons.prems Inr show ?thesis by auto
    next
      case False
      with Cons.prems Inr
      have "rows_plain env limit rs (n + 1) (rv @ [row]) = (e, rv')" by simp
      with Cons.IH [of "n + 1" "rv @ [row]"] False show ?thesis by simp
    qed
  qed
qed

lemma rows_struct_length:
  "n < limit \<Longrightarrow> rows_struct env limit rs n rv = (e, rv') \<Longrightarrow>
   int (length rv') \<le> int (length rv) + (limit - n)"
proof (induction rs arbitrary: n rv)
  case Nil
  then show ?case by simp
next
  case (Cons r rs)
  show ?case
  proof (cases "n + 1 \<ge> limit")
    case True
    with Cons.prems show ?thesis by (auto simp: Let_def)
  next
    case False
    with Cons.prems
    have "rows_struct env limit rs (n + 1) (rv @ [snd (binder_scan env r (zero env))]) = (e, rv')"
      by (simp add: Let_def)
    with Cons.IH [of "n + 1"] False show ?thesis by fastforce
  qed
qed

lemma rows_struct_no_error: "fst (rows_struct env limit rs n rv) = None"
  by (induction rs arbitrary: n rv) (simp_all add: Let_def)

text \<open>
  With a cap of at least one, \<open>Rows\<close> appends at most that many rows, and reaching the cap
  is not an error for struct elements.
\<close>

lemma Rows_cap_positive:
  assumes "1 \<le> maxRows p" and "Rows env p (Slice rv) = (e, Slice rv')"
  shows "int (length rv') \<le> int (length rv) + maxRows p"
proof (cases "err p = None \<and> (structMode env \<longrightarrow> genBinder env = None)")
  case False
  with assms(2) have "rv' = rv"
    by (auto simp: Rows_def rowsInputValue_def split: option.splits)
  with assms(1) show ?thesis by simp
next
  case True
  show ?thesis
  proof (cases "structMode env")
    case False
    with True assms(2) have "rows_plain env (maxRows p) (rows p) 0 rv = (e, rv')"
      by (auto simp: Rows_def rowsInputValue_def split: prod.splits)
    from rows_plain_length [OF _ this] assms(1) show ?thesis by simp
  next
    case s: True
    with True assms(2) have "rows_struct env (maxRows p) (rows p) 0 rv = (e, rv')"
      by (auto simp: Rows_def rowsInputValue_def split: prod.splits)
    from rows_struct_length [OF _ this] assms(1) show ?thesis by simp
  qed
qed

text \<open>
  C7. With the cap set to \<open>0\<close> and two rows in the result set, \<open>Rows\<close> appends one row: the
  count is compared with the cap only after a row has been appended.
\<close>

theorem Rows_cap_zero_appends_one:
  "Rows plainBinding \<lparr>ignoreNotFound = False, maxRows = 0, rows = [11, 12], err = None\<rparr> (Slice [])
     = (None, Slice [11])"
  by (simp add: Rows_def rowsInputValue_def plainBinding_def)

text \<open>A JSON decode error never leaves \<open>unmarshal\<close>.\<close>

lemma unmarshal_no_error: "fst (unmarshal env t v) = None"
  by (simp add: unmarshal_def Let_def split: proxy.splits)

text \<open>
  C8. With struct elements and a row scan that fails on every row, \<open>Rows\<close> returns no error
  and appends one zero element per row.
\<close>

theorem Rows_struct_swallows_scan_error:
  "Rows failingBinding \<lparr>ignoreNotFound = False, maxRows = 1000, rows = [11, 12], err = None\<rparr> (Slice [])
     = (None, Slice [0, 0])"
  by (simp add: Rows_def rowsInputValue_def failingBinding_def genBinder_def binder_scan_def)

section \<open>Properties of bulk script execution\<close>

text \<open>
  The lines of a blob contain no newline, and joined by newlines they give the blob back.
\<close>

lemma SplitLines_nonempty: "SplitLines s \<noteq> []"
  by (induction s) (auto split: list.splits)

lemma Join_cons_char: "Join ((c # l) # ls) sep = c # Join (l # ls) sep"
  by (cases ls) simp_all

lemma SplitLines_Join: "Join (SplitLines s) [CHR 0x0A] = s"
proof (induction s)
  case Nil
  then show ?case by simp
next
  case (Cons c cs)
  obtain l ls where sp: "SplitLines cs = l # ls"
    using SplitLines_nonempty [of cs] by (cases "SplitLines cs") auto
  with Cons show ?case by (simp add: Join_cons_char)
qed

lemma SplitLines_no_newline: "l \<in> set (SplitLines s) \<Longrightarrow> CHR 0x0A \<notin> set l"
proof (induction s arbitrary: l)
  case Nil
  then show ?case by simp
next
  case (Cons c cs)
  obtain l0 ls where sp: "SplitLines cs = l0 # ls"
    using SplitLines_nonempty [of cs] by (cases "SplitLines cs") auto
  from Cons.IH [of l0] Cons.IH sp have ih: "CHR 0x0A \<notin> set l0" "\<And>x. x \<in> set ls \<Longrightarrow> CHR 0x0A \<notin> set x"
    by simp_all
  from Cons.prems sp ih show ?case by (auto split: if_splits)
qed

text \<open>
  The line loop yields the commands of the blob as said line by line.
\<close>

lemma has_prefix_split: "HasPrefix l p \<Longrightarrow> l = p @ drop (length p) l"
  unfolding HasPrefix_def by (metis append_take_drop_id)

lemma keyword_line:
  assumes "CHR '' '' \<notin> set kw" and "kw \<noteq> []"
  shows "IndexSpace (kw @ '' '' @ r) = int (length kw)"
    and "take (length kw) (kw @ '' '' @ r) = kw"
proof -
  from assms(1) have "takeWhile (\<lambda>c. c \<noteq> CHR '' '') (kw @ '' '' @ r) = kw"
    by (induction kw) auto
  then show "IndexSpace (kw @ '' '' @ r) = int (length kw)" by (simp add: IndexSpace_def)
  show "take (length kw) (kw @ '' '' @ r) = kw" by simp
qed

lemma index_prefix:
  assumes "0 < IndexSpace l"
  shows "HasPrefix l (take (nat (IndexSpace l)) l @ '' '')"
proof -
  from assms have sp: "CHR '' '' \<in> set l" by (auto simp: IndexSpace_def split: if_splits)
  define a where "a = takeWhile (\<lambda>c. c \<noteq> CHR '' '') l"
  define b where "b = dropWhile (\<lambda>c. c \<noteq> CHR '' '') l"
  have l: "l = a @ b" by (simp add: a_def b_def)
  from sp have "b \<noteq> []" by (auto simp: b_def dropWhile_eq_Nil_conv)
  moreover have "b \<noteq> [] \<Longrightarrow> hd b = CHR '' ''" using hd_dropWhile [of "\<lambda>c. c \<noteq> CHR '' ''" l] by (simp add: b_def)
  ultimately obtain r where b: "b = CHR '' '' # r" by (cases b) auto
  from sp have n: "nat (IndexSpace l) = length a" by (simp add: IndexSpace_def a_def)
  have "take (length a) l = a" using l by simp
  with n l b show ?thesis by (simp add: HasPrefix_def)
qed

lemma keyword_iff:
  "(0 < IndexSpace l \<and> take (nat (IndexSpace l)) l \<in> {''SET'', ''CREATE'', ''INSERT'', ''DROP''})
   \<longleftrightarrow> startsCommand l"
proof
  assume a: "0 < IndexSpace l \<and> take (nat (IndexSpace l)) l \<in> {''SET'', ''CREATE'', ''INSERT'', ''DROP''}"
  with index_prefix [of l] show "startsCommand l"
    by (auto simp: startsCommand_def)
next
  assume "startsCommand l"
  then consider "HasPrefix l (''SET'' @ '' '')" | "HasPrefix l (''CREATE'' @ '' '')"
    | "HasPrefix l (''INSERT'' @ '' '')" | "HasPrefix l (''DROP'' @ '' '')"
    by (auto simp: startsCommand_def)
  then obtain kw r where l: "l = kw @ '' '' @ r"
    and kw: "kw \<in> {''SET'', ''CREATE'', ''INSERT'', ''DROP''}"
  proof cases
    case 1
    from has_prefix_split [OF this] that [of "''SET''"] show ?thesis by simp
  next
    case 2
    from has_prefix_split [OF this] that [of "''CREATE''"] show ?thesis by simp
  next
    case 3
    from has_prefix_split [OF this] that [of "''INSERT''"] show ?thesis by simp
  next
    case 4
    from has_prefix_split [OF this] that [of "''DROP''"] show ?thesis by simp
  qed
  from kw have ns: "CHR '' '' \<notin> set kw" and ne: "kw \<noteq> []" by auto
  from keyword_line [OF ns ne, of r] kw ne
  show "0 < IndexSpace l \<and> take (nat (IndexSpace l)) l \<in> {''SET'', ''CREATE'', ''INSERT'', ''DROP''}"
    unfolding l by (simp del: insert_iff)
qed

lemma last_joined: "last (cmd @ '' '' @ t) = CHR '';'' \<longleftrightarrow> t \<noteq> [] \<and> last t = CHR '';''"
  by (cases "t = []") simp_all

lemma joinLines_cons: "joinLines cmd (l # ls) = joinLines (cmd @ '' '' @ TrimSpace l) ls"
  by (simp add: joinLines_def)

lemma scan_skip:
  "skipped l \<Longrightarrow> scanLines (l # ls) cmd inCmd cmds = scanLines ls cmd inCmd cmds"
  by (auto simp: skipped_def)

lemma scan_inside:
  "\<not> skipped l \<Longrightarrow>
   scanLines (l # ls) cmd True cmds =
     (if endsCommand l then scanLines ls (cmd @ '' '' @ TrimSpace l) False (cmds @ [cmd @ '' '' @ TrimSpace l])
      else scanLines ls (cmd @ '' '' @ TrimSpace l) True cmds)"
  using last_joined [of cmd "TrimSpace l"]
  by (simp add: skipped_def endsCommand_def Let_def)

lemma scan_outside:
  "\<not> skipped l \<Longrightarrow>
   scanLines (l # ls) cmd False cmds =
     (if \<not> startsCommand l then scanLines ls cmd False cmds
      else if last l = CHR '';'' then scanLines ls l False (cmds @ [l])
      else scanLines ls l True cmds)"
  using keyword_iff [of l]
  by (simp add: skipped_def Let_def del: insert_iff) (smt (verit) not_le)

lemma scanLines_commands:
  "scanLines ls cmd False cmds = cmds @ commandsOf (filter (\<lambda>l. \<not> skipped l) ls)"
  "scanLines ls cmd True cmds =
     (case dropWhile (\<lambda>x. \<not> endsCommand x) (filter (\<lambda>l. \<not> skipped l) ls) of
        [] \<Rightarrow> cmds
      | t # rest \<Rightarrow>
          cmds @ joinLines cmd (takeWhile (\<lambda>x. \<not> endsCommand x) (filter (\<lambda>l. \<not> skipped l) ls) @ [t])
                 # commandsOf rest)"
proof (induction ls arbitrary: cmd cmds)
  case Nil
  {
    case 1
    show ?case by simp
  next
    case 2
    show ?case by simp
  }
next
  case (Cons l ls)
  note out = Cons.IH(1) and ins = Cons.IH(2)
  {
    case 1
    show ?case
    proof (cases "skipped l")
      case True
      with out [of cmd cmds] show ?thesis by (simp add: scan_skip del: scanLines.simps)
    next
      case False
      show ?thesis
      proof (cases "startsCommand l")
        case s: False
        with False out [of cmd cmds] show ?thesis by (simp add: scan_outside del: scanLines.simps)
      next
        case s: True
        show ?thesis
        proof (cases "last l = CHR '';''")
          case True
          with False s out [of l "cmds @ [l]"] show ?thesis by (simp add: scan_outside del: scanLines.simps)
        next
          case e: False
          from False s e have r: "scanLines (l # ls) cmd False cmds = scanLines ls l True cmds"
            by (simp add: scan_outside del: scanLines.simps)
          from False s e have c: "commandsOf (filter (\<lambda>l. \<not> skipped l) (l # ls)) =
              (case dropWhile (\<lambda>x. \<not> endsCommand x) (filter (\<lambda>l. \<not> skipped l) ls) of
                 [] \<Rightarrow> []
               | t # rest \<Rightarrow>
                   joinLines l (takeWhile (\<lambda>x. \<not> endsCommand x) (filter (\<lambda>l. \<not> skipped l) ls) @ [t])
                   # commandsOf rest)"
            by simp
          show ?thesis
            unfolding r c ins [of l cmds]
            by (simp del: dropWhile_eq_Nil_conv split: list.split)
        qed
      qed
    qed
  next
    case 2
    show ?case
    proof (cases "skipped l")
      case True
      then have f: "filter (\<lambda>l. \<not> skipped l) (l # ls) = filter (\<lambda>l. \<not> skipped l) ls" by simp
      show ?thesis unfolding f scan_skip [OF True] by (rule ins)
    next
      case False
      show ?thesis
      proof (cases "endsCommand l")
        case True
        with False have f: "dropWhile (\<lambda>x. \<not> endsCommand x) (filter (\<lambda>l. \<not> skipped l) (l # ls))
              = l # filter (\<lambda>l. \<not> skipped l) ls"
          and g: "takeWhile (\<lambda>x. \<not> endsCommand x) (filter (\<lambda>l. \<not> skipped l) (l # ls)) = []"
          by simp_all
        from False True out [of "cmd @ '' '' @ TrimSpace l" "cmds @ [cmd @ '' '' @ TrimSpace l]"]
        show ?thesis unfolding f g by (simp add: scan_inside joinLines_def del: scanLines.simps)
      next
        case e: False
        from False e have r: "scanLines (l # ls) cmd True cmds = scanLines ls (cmd @ '' '' @ TrimSpace l) True cmds"
          by (simp add: scan_inside del: scanLines.simps)
        from False e have f: "dropWhile (\<lambda>x. \<not> endsCommand x) (filter (\<lambda>l. \<not> skipped l) (l # ls))
              = dropWhile (\<lambda>x. \<not> endsCommand x) (filter (\<lambda>l. \<not> skipped l) ls)"
          and g: "takeWhile (\<lambda>x. \<not> endsCommand x) (filter (\<lambda>l. \<not> skipped l) (l # ls))
              = l # takeWhile (\<lambda>x. \<not> endsCommand x) (filter (\<lambda>l. \<not> skipped l) ls)"
          by simp_all
        show ?thesis
          unfolding r f g ins [of "cmd @ '' '' @ TrimSpace l" cmds]
          by (simp add: joinLines_cons del: dropWhile_eq_Nil_conv split: list.split)
      qed
    qed
  }
qed

lemma scriptCmds_commands: "scriptCmds bytes = commands bytes"
  by (simp add: scriptCmds_def commands_def scanLines_commands(1))

lemma execCmds_result:
  "execCmds tx qs = (e, tx') \<Longrightarrow>
     (e = None \<longrightarrow>
        (\<forall>k < length qs. execErr tx (pending tx @ take k qs) (qs ! k) = None)
        \<and> tx' = tx\<lparr>txlog := txlog tx @ map TxExec qs, pending := pending tx @ qs\<rparr>)
     \<and> (e \<noteq> None \<longrightarrow>
        (\<exists>k < length qs. \<exists>x.
            (\<forall>j < k. execErr tx (pending tx @ take j qs) (qs ! j) = None)
            \<and> execErr tx (pending tx @ take k qs) (qs ! k) = Some x
            \<and> e = Some (Wrap (''sql '' @ qs ! k @ [CHR 0x0A] @ ''err '') x)
            \<and> tx' = tx\<lparr>txlog := txlog tx @ map TxExec (take (Suc k) qs),
                        pending := pending tx @ take k qs\<rparr>))"
proof (induction qs arbitrary: tx)
  case Nil
  then show ?case by simp
next
  case (Cons q qs)
  show ?case
  proof (cases "execErr tx (pending tx) q")
    case (Some x)
    with Cons.prems have e: "e = Some (Wrap (''sql '' @ q @ [CHR 0x0A] @ ''err '') x)"
      and t: "tx' = tx\<lparr>txlog := txlog tx @ [TxExec q]\<rparr>"
      by (simp_all add: txExec_def)
    have "\<exists>k < length (q # qs). \<exists>x.
            (\<forall>j < k. execErr tx (pending tx @ take j (q # qs)) ((q # qs) ! j) = None)
            \<and> execErr tx (pending tx @ take k (q # qs)) ((q # qs) ! k) = Some x
            \<and> e = Some (Wrap (''sql '' @ (q # qs) ! k @ [CHR 0x0A] @ ''err '') x)
            \<and> tx' = tx\<lparr>txlog := txlog tx @ map TxExec (take (Suc k) (q # qs)),
                        pending := pending tx @ take k (q # qs)\<rparr>"
      using Some e t by (intro exI [of _ 0] exI [of _ x]) simp
    with e show ?thesis by simp
  next
    case None
    define tx1 where "tx1 = tx\<lparr>txlog := txlog tx @ [TxExec q], pending := pending tx @ [q]\<rparr>"
    from None Cons.prems have run: "execCmds tx1 qs = (e, tx')" by (simp add: txExec_def tx1_def)
    have fr: "execErr tx1 = execErr tx" "pending tx1 = pending tx @ [q]" "txlog tx1 = txlog tx @ [TxExec q]"
      by (simp_all add: tx1_def)
    note ih = Cons.IH [OF run, unfolded fr]
    have ok: "(\<forall>k < length (q # qs). execErr tx (pending tx @ take k (q # qs)) ((q # qs) ! k) = None)
        \<and> tx' = tx\<lparr>txlog := txlog tx @ map TxExec (q # qs), pending := pending tx @ q # qs\<rparr>"
      if n: "e = None"
    proof -
      from n ih have a: "\<forall>k < length qs. execErr tx ((pending tx @ [q]) @ take k qs) (qs ! k) = None"
        and b: "tx' = tx1\<lparr>txlog := (txlog tx @ [TxExec q]) @ map TxExec qs, pending := (pending tx @ [q]) @ qs\<rparr>"
        by simp_all
      have "\<forall>k < length (q # qs). execErr tx (pending tx @ take k (q # qs)) ((q # qs) ! k) = None"
      proof (intro allI impI)
        fix k assume "k < length (q # qs)"
        then show "execErr tx (pending tx @ take k (q # qs)) ((q # qs) ! k) = None"
          using None a by (cases k) auto
      qed
      moreover from b have "tx' = tx\<lparr>txlog := txlog tx @ map TxExec (q # qs), pending := pending tx @ q # qs\<rparr>"
        by (simp add: tx1_def)
      ultimately show ?thesis by (rule conjI)
    qed
    have bad: "\<exists>k < length (q # qs). \<exists>x.
            (\<forall>j < k. execErr tx (pending tx @ take j (q # qs)) ((q # qs) ! j) = None)
            \<and> execErr tx (pending tx @ take k (q # qs)) ((q # qs) ! k) = Some x
            \<and> e = Some (Wrap (''sql '' @ (q # qs) ! k @ [CHR 0x0A] @ ''err '') x)
            \<and> tx' = tx\<lparr>txlog := txlog tx @ map TxExec (take (Suc k) (q # qs)),
                        pending := pending tx @ take k (q # qs)\<rparr>"
      if n: "e \<noteq> None"
    proof -
      from ih [THEN conjunct2, THEN mp, OF n] obtain k x where k: "k < length qs"
        "\<forall>j < k. execErr tx ((pending tx @ [q]) @ take j qs) (qs ! j) = None"
        "execErr tx ((pending tx @ [q]) @ take k qs) (qs ! k) = Some x"
        "e = Some (Wrap (''sql '' @ qs ! k @ [CHR 0x0A] @ ''err '') x)"
        "tx' = tx1\<lparr>txlog := (txlog tx @ [TxExec q]) @ map TxExec (take (Suc k) qs),
                   pending := (pending tx @ [q]) @ take k qs\<rparr>"
        by (elim exE conjE) (rule that)
      have before: "\<forall>j < Suc k. execErr tx (pending tx @ take j (q # qs)) ((q # qs) ! j) = None"
      proof (intro allI impI)
        fix j assume "j < Suc k"
        then show "execErr tx (pending tx @ take j (q # qs)) ((q # qs) ! j) = None"
          using None k(2) by (cases j) auto
      qed
      have l: "Suc k < length (q # qs)" using k(1) by simp
      have c: "execErr tx (pending tx @ take (Suc k) (q # qs)) ((q # qs) ! Suc k) = Some x"
        using k(3) by simp
      have m: "e = Some (Wrap (''sql '' @ (q # qs) ! Suc k @ [CHR 0x0A] @ ''err '') x)"
        using k(4) by simp
      have t: "tx' = tx\<lparr>txlog := txlog tx @ map TxExec (take (Suc (Suc k)) (q # qs)),
                        pending := pending tx @ take (Suc k) (q # qs)\<rparr>"
        using k(5) by (simp add: tx1_def)
      show ?thesis
        by (rule exI [of _ "Suc k"], rule conjI [OF l], rule exI [of _ x]) (intro conjI before c m t)
    qed
    show ?thesis by (rule conjI) (rule impI, erule ok, rule impI, erule bad)
  qed
qed

lemma ExecRows_begun:
  assumes "beginErr d = None"
  shows "ExecRows d bytes =
    (case execCmds (d\<lparr>txlog := txlog d @ [TxBegin], pending := []\<rparr>) (commands bytes) of
       (err0, tx1) \<Rightarrow> (err0, if err0 \<noteq> None then snd (Rollback tx1) else snd (Commit tx1)))"
  using assms by (simp add: ExecRows_def Begin_def scriptCmds_commands)

text \<open>
  C9 (amended). \<open>ExecRows\<close> splits the blob into lines at the newlines and runs, inside one
  transaction, the commands of the blob: a command starts at a line that begins with
  \<^verbatim>\<open>SET\<close>, \<^verbatim>\<open>CREATE\<close>, \<^verbatim>\<open>INSERT\<close> or \<^verbatim>\<open>DROP\<close> and a space, and runs to the first line that ends
  it with a semicolon; empty lines and lines that start with \<^verbatim>\<open>"-- "\<close> are skipped. If \<^verbatim>\<open>Begin\<close>
  fails nothing runs. Otherwise the call returns no error exactly when every command succeeds;
  then all of them ran, in order, and the transaction is committed; their effects are durable
  when the commit itself succeeds, and the call returns no error also when it does not. When a command fails, the commands before it
  ran, no later one is tried, the error names the failing command, the transaction is rolled
  back and nothing becomes durable.
\<close>

theorem ExecRows_transaction:
  "Join (SplitLines bytes) [CHR 0x0A] = bytes
   \<and> (\<forall>l \<in> set (SplitLines bytes). CHR 0x0A \<notin> set l)
   \<and> (beginErr d = Some b \<longrightarrow> ExecRows d bytes = (Some (Wrap ''Begin() err: '' b), d))
   \<and> (beginErr d = None \<longrightarrow>
        (fst (ExecRows d bytes) = None \<longleftrightarrow> allSucceed d (commands bytes))
        \<and> (allSucceed d (commands bytes) \<longrightarrow>
             ExecRows d bytes =
               (None, d\<lparr>txlog := txlog d @ [TxBegin] @ map TxExec (commands bytes) @ [TxCommit],
                        pending := [],
                        durable := (if commitErr d = None then durable d @ commands bytes else durable d)\<rparr>))
        \<and> (\<not> allSucceed d (commands bytes) \<longrightarrow>
             durable (snd (ExecRows d bytes)) = durable d
             \<and> (\<exists>k < length (commands bytes). \<exists>x.
                   (\<forall>j < k. execErr d (take j (commands bytes)) (commands bytes ! j) = None)
                   \<and> execErr d (take k (commands bytes)) (commands bytes ! k) = Some x
                   \<and> ExecRows d bytes =
                       (Some (Wrap (''sql '' @ commands bytes ! k @ [CHR 0x0A] @ ''err '') x),
                        d\<lparr>txlog := txlog d @ [TxBegin] @ map TxExec (take (Suc k) (commands bytes))
                                     @ [TxRollback],
                          pending := []\<rparr>))))"
proof (intro conjI impI ballI)
  show "Join (SplitLines bytes) [CHR 0x0A] = bytes" by (rule SplitLines_Join)
next
  fix l assume "l \<in> set (SplitLines bytes)"
  then show "CHR 0x0A \<notin> set l" by (rule SplitLines_no_newline)
next
  assume "beginErr d = Some b"
  then show "ExecRows d bytes = (Some (Wrap ''Begin() err: '' b), d)"
    by (simp add: ExecRows_def Begin_def)
next
  assume b: "beginErr d = None"
  define tx where "tx = d\<lparr>txlog := txlog d @ [TxBegin], pending := []\<rparr>"
  obtain e tx' where r: "execCmds tx (commands bytes) = (e, tx')" by (cases "execCmds tx (commands bytes)")
  have fr: "execErr tx = execErr d" "pending tx = []" "txlog tx = txlog d @ [TxBegin]"
    by (simp_all add: tx_def)
  note res0 = execCmds_result [OF r, unfolded fr]
  have resN: "(\<forall>k < length (commands bytes). execErr d (take k (commands bytes)) (commands bytes ! k) = None)
        \<and> tx' = tx\<lparr>txlog := (txlog d @ [TxBegin]) @ map TxExec (commands bytes),
                   pending := commands bytes\<rparr>" if "e = None"
    using res0 [THEN conjunct1, THEN mp, OF that] by simp
  have resS: "\<exists>k < length (commands bytes). \<exists>x.
            (\<forall>j < k. execErr d (take j (commands bytes)) (commands bytes ! j) = None)
            \<and> execErr d (take k (commands bytes)) (commands bytes ! k) = Some x
            \<and> e = Some (Wrap (''sql '' @ commands bytes ! k @ [CHR 0x0A] @ ''err '') x)
            \<and> tx' = tx\<lparr>txlog := (txlog d @ [TxBegin]) @ map TxExec (take (Suc k) (commands bytes)),
                        pending := take k (commands bytes)\<rparr>" if "e \<noteq> None"
    using res0 [THEN conjunct2, THEN mp, OF that] by simp
  from ExecRows_begun [OF b, of bytes] r
  have run: "ExecRows d bytes = (e, if e \<noteq> None then snd (Rollback tx') else snd (Commit tx'))"
    by (simp add: tx_def)
  show iff: "fst (ExecRows d bytes) = None \<longleftrightarrow> allSucceed d (commands bytes)"
  proof
    assume "fst (ExecRows d bytes) = None"
    with run have "e = None" by simp
    from resN [OF this] show "allSucceed d (commands bytes)" by (simp add: allSucceed_def)
  next
    assume a: "allSucceed d (commands bytes)"
    show "fst (ExecRows d bytes) = None"
    proof (rule ccontr)
      assume "fst (ExecRows d bytes) \<noteq> None"
      with run have "e \<noteq> None" by simp
      from resS [OF this] obtain k x where "k < length (commands bytes)"
        "execErr d (take k (commands bytes)) (commands bytes ! k) = Some x"
        by (elim exE conjE) (rule that)
      with a show False by (simp add: allSucceed_def)
    qed
  qed
  {
    assume "allSucceed d (commands bytes)"
    with iff run have e: "e = None" by simp
    from resN [OF e] have "tx' = tx\<lparr>txlog := (txlog d @ [TxBegin]) @ map TxExec (commands bytes),
                            pending := commands bytes\<rparr>" by simp
    with run e show "ExecRows d bytes =
               (None, d\<lparr>txlog := txlog d @ [TxBegin] @ map TxExec (commands bytes) @ [TxCommit],
                        pending := [],
                        durable := (if commitErr d = None then durable d @ commands bytes else durable d)\<rparr>)"
      by (simp add: Commit_def tx_def)
  }
  {
    assume "\<not> allSucceed d (commands bytes)"
    with iff run have e: "e \<noteq> None" by simp
    from resS [OF e] obtain k x where k: "k < length (commands bytes)"
      "\<forall>j < k. execErr d (take j (commands bytes)) (commands bytes ! j) = None"
      "execErr d (take k (commands bytes)) (commands bytes ! k) = Some x"
      "e = Some (Wrap (''sql '' @ commands bytes ! k @ [CHR 0x0A] @ ''err '') x)"
      "tx' = tx\<lparr>txlog := (txlog d @ [TxBegin]) @ map TxExec (take (Suc k) (commands bytes)),
                 pending := take k (commands bytes)\<rparr>"
      by (elim exE conjE) (rule that)
    from run e k(4,5) have full: "ExecRows d bytes =
        (Some (Wrap (''sql '' @ commands bytes ! k @ [CHR 0x0A] @ ''err '') x),
         d\<lparr>txlog := txlog d @ [TxBegin] @ map TxExec (take (Suc k) (commands bytes)) @ [TxRollback],
           pending := []\<rparr>)"
      by (simp add: Rollback_def tx_def)
    then show "durable (snd (ExecRows d bytes)) = durable d" by simp
    show "\<exists>k < length (commands bytes). \<exists>x.
                   (\<forall>j < k. execErr d (take j (commands bytes)) (commands bytes ! j) = None)
                   \<and> execErr d (take k (commands bytes)) (commands bytes ! k) = Some x
                   \<and> ExecRows d bytes =
                       (Some (Wrap (''sql '' @ commands bytes ! k @ [CHR 0x0A] @ ''err '') x),
                        d\<lparr>txlog := txlog d @ [TxBegin] @ map TxExec (take (Suc k) (commands bytes))
                                     @ [TxRollback],
                          pending := []\<rparr>)"
      by (rule exI [of _ k], rule conjI [OF k(1)], rule exI [of _ x]) (intro conjI k(2) k(3) full)
  }
qed

theorem ExecRows_transaction_witness:
  "beginErr (someTxdb []) = None
   \<and> commands script1 =
       [''CREATE TABLE t ( a int, b text );'', ''INSERT INTO t VALUES (1);'', ''DROP TABLE u;'']
   \<and> allSucceed (someTxdb []) (commands script1)
   \<and> ExecRows (someTxdb []) script1 =
       (None, (someTxdb [])
          \<lparr>txlog := [TxBegin, TxExec ''CREATE TABLE t ( a int, b text );'',
                     TxExec ''INSERT INTO t VALUES (1);'', TxExec ''DROP TABLE u;'', TxCommit],
           pending := [],
           durable := [''CREATE TABLE t ( a int, b text );'', ''INSERT INTO t VALUES (1);'',
                       ''DROP TABLE u;'']\<rparr>)
   \<and> \<not> allSucceed (someTxdb [''INSERT INTO t VALUES (1);'']) (commands script1)
   \<and> fst (ExecRows (someTxdb [''INSERT INTO t VALUES (1);'']) script1) \<noteq> None
   \<and> durable (snd (ExecRows (someTxdb [''INSERT INTO t VALUES (1);'']) script1)) = []
   \<and> txlog (snd (ExecRows (someTxdb [''INSERT INTO t VALUES (1);'']) script1)) =
       [TxBegin, TxExec ''CREATE TABLE t ( a int, b text );'', TxExec ''INSERT INTO t VALUES (1);'',
        TxRollback]
   \<and> ExecRows ((someTxdb [])\<lparr>beginErr := Some (External ''bad connection'')\<rparr>) script1 =
       (Some (Wrap ''Begin() err: '' (External ''bad connection'')),
        (someTxdb [])\<lparr>beginErr := Some (External ''bad connection'')\<rparr>)
   \<and> ExecRows ((someTxdb [])\<lparr>commitErr := Some (External ''disk full'')\<rparr>) ''DROP TABLE u;'' =
       (None, (someTxdb [])\<lparr>commitErr := Some (External ''disk full''),
                            txlog := [TxBegin, TxExec ''DROP TABLE u;'', TxCommit]\<rparr>)"
proof -
  have cmds: "commands script1 =
      [''CREATE TABLE t ( a int, b text );'', ''INSERT INTO t VALUES (1);'', ''DROP TABLE u;'']"
    by code_simp
  have ok: "allSucceed (someTxdb []) (commands script1)"
    unfolding cmds by (simp add: allSucceed_def someTxdb_def)
  have bad: "\<not> allSucceed (someTxdb [''INSERT INTO t VALUES (1);'']) (commands script1)"
    unfolding cmds allSucceed_def someTxdb_def by (auto intro!: exI [of _ 1])
  have b1: "beginErr (someTxdb []) = None" and b2: "beginErr (someTxdb [''INSERT INTO t VALUES (1);'']) = None"
    and d2: "durable (someTxdb [''INSERT INTO t VALUES (1);'']) = []"
    and t1: "txlog (someTxdb []) = []" and d1: "durable (someTxdb []) = []"
    and c1: "commitErr (someTxdb []) = None"
    and b3: "beginErr ((someTxdb [])\<lparr>beginErr := Some (External ''bad connection'')\<rparr>)
             = Some (External ''bad connection'')"
    by (simp_all add: someTxdb_def)
  note good = ExecRows_transaction [of script1 "someTxdb []" undefined,
                THEN conjunct2, THEN conjunct2, THEN conjunct2, THEN mp, OF b1]
  note fail = ExecRows_transaction [of script1 "someTxdb [''INSERT INTO t VALUES (1);'']" undefined,
                THEN conjunct2, THEN conjunct2, THEN conjunct2, THEN mp, OF b2]
  note nobegin = ExecRows_transaction [of script1
                "(someTxdb [])\<lparr>beginErr := Some (External ''bad connection'')\<rparr>"
                "External ''bad connection''",
                THEN conjunct2, THEN conjunct2, THEN conjunct1, THEN mp, OF b3]
  from good [THEN conjunct2, THEN conjunct1, THEN mp, OF ok]
  have e1: "ExecRows (someTxdb []) script1 =
       (None, (someTxdb [])
          \<lparr>txlog := [TxBegin, TxExec ''CREATE TABLE t ( a int, b text );'',
                     TxExec ''INSERT INTO t VALUES (1);'', TxExec ''DROP TABLE u;'', TxCommit],
           pending := [],
           durable := [''CREATE TABLE t ( a int, b text );'', ''INSERT INTO t VALUES (1);'',
                       ''DROP TABLE u;'']\<rparr>)"
    by (simp add: cmds t1 d1 c1)
  from fail [THEN conjunct1] bad
  have e3: "fst (ExecRows (someTxdb [''INSERT INTO t VALUES (1);'']) script1) \<noteq> None" by simp
  from fail [THEN conjunct2, THEN conjunct2, THEN mp, OF bad, THEN conjunct1] d2
  have e4: "durable (snd (ExecRows (someTxdb [''INSERT INTO t VALUES (1);'']) script1)) = []" by simp
  have e5: "txlog (snd (ExecRows (someTxdb [''INSERT INTO t VALUES (1);'']) script1)) =
       [TxBegin, TxExec ''CREATE TABLE t ( a int, b text );'', TxExec ''INSERT INTO t VALUES (1);'',
        TxRollback]"
    by code_simp
  have cmdsu: "commands ''DROP TABLE u;'' = [''DROP TABLE u;'']" by code_simp
  have b4: "beginErr ((someTxdb [])\<lparr>commitErr := Some (External ''disk full'')\<rparr>) = None"
    by (simp add: someTxdb_def)
  have ok4: "allSucceed ((someTxdb [])\<lparr>commitErr := Some (External ''disk full'')\<rparr>) (commands ''DROP TABLE u;'')"
    unfolding cmdsu by (simp add: allSucceed_def someTxdb_def)
  from ExecRows_transaction [of "''DROP TABLE u;''" "(someTxdb [])\<lparr>commitErr := Some (External ''disk full'')\<rparr>"
         undefined, THEN conjunct2, THEN conjunct2, THEN conjunct2, THEN mp, OF b4,
         THEN conjunct2, THEN conjunct1, THEN mp, OF ok4]
  have e6: "ExecRows ((someTxdb [])\<lparr>commitErr := Some (External ''disk full'')\<rparr>) ''DROP TABLE u;'' =
       (None, (someTxdb [])\<lparr>commitErr := Some (External ''disk full''),
                            txlog := [TxBegin, TxExec ''DROP TABLE u;'', TxCommit]\<rparr>)"
    by (simp add: cmdsu someTxdb_def)
  show ?thesis by (intro conjI b1 cmds ok e1 bad e3 e4 e5 nobegin e6)
qed

text \<open>
  A statement on an indented line, and a statement in lower case, are not run, and the call
  returns no error. A statement line that ends with a blank after the semicolon is run together
  with the next statement line, as one command.
\<close>

theorem ExecRows_statements_counterexample:
  "fst (ExecRows (someTxdb []) ''  INSERT INTO t VALUES (1);'') = None
   \<and> txlog (snd (ExecRows (someTxdb []) ''  INSERT INTO t VALUES (1);'')) = [TxBegin, TxCommit]
   \<and> fst (ExecRows (someTxdb []) ''insert into t values (1);'') = None
   \<and> txlog (snd (ExecRows (someTxdb []) ''insert into t values (1);'')) = [TxBegin, TxCommit]
   \<and> txlog (snd (ExecRows (someTxdb []) (''INSERT INTO t VALUES (1); '' @ [CHR 0x0A] @ ''DROP TABLE u;'')))
       = [TxBegin, TxExec ''INSERT INTO t VALUES (1);  DROP TABLE u;'', TxCommit]
   \<and> commands (''INSERT INTO t VALUES (1); '' @ [CHR 0x0A] @ ''DROP TABLE u;'')
       = [''INSERT INTO t VALUES (1);  DROP TABLE u;'']"
  by code_simp

section \<open>Properties of opening a connection\<close>

text \<open>
  C10. When no factory is registered under the dialect name, and \<^verbatim>\<open>sql.Open\<close> succeeds, and the
  ping is disabled or succeeds, \<open>open\<close> returns a connection, and its dialect driver is
  \<open>nonDriver\<close>.
\<close>

theorem open_unregistered_dialect:
  "dbFactories (driver opts) = None \<Longrightarrow> sqlOpen pkg (driver opts) (dsn opts) = Inr h \<Longrightarrow>
   withoutPing opts \<or> Ping pkg h = None \<Longrightarrow>
   \<exists>d. open pkg dbFactories opts = Inr d \<and> Driver d = nonDriver \<and> handle (db d) = h"
  by (auto simp: open_def Let_def)

theorem open_unregistered_dialect_witness:
  "someFactories ''mysql'' = None
   \<and> (\<exists>d. open somePkg someFactories (NewDefaultDBOptions\<lparr>driver := ''mysql''\<rparr>) = Inr d
          \<and> Driver d = nonDriver \<and> handle (db d) = 7)"
proof -
  have a: "someFactories (driver (NewDefaultDBOptions\<lparr>driver := ''mysql''\<rparr>)) = None"
    by (simp add: someFactories_def)
  have b: "sqlOpen somePkg (driver (NewDefaultDBOptions\<lparr>driver := ''mysql''\<rparr>))
             (dsn (NewDefaultDBOptions\<lparr>driver := ''mysql''\<rparr>)) = Inr 7"
    by (simp add: somePkg_def)
  have c: "withoutPing (NewDefaultDBOptions\<lparr>driver := ''mysql''\<rparr>) \<or> Ping somePkg 7 = None"
    by (simp add: somePkg_def)
  from open_unregistered_dialect
         [where dbFactories = someFactories and pkg = somePkg and h = 7
            and opts = "NewDefaultDBOptions\<lparr>driver := ''mysql''\<rparr>", OF a b c] a
  show ?thesis by simp
qed

section \<open>Properties of the tokenizer\<close>

























text \<open>
  C3 (amended). The example statement parses into exactly three clauses: the comma inside the quoted
  default \<^verbatim>\<open>'x,y'\<close> does not separate. \<open>getColumns\<close> returns the two column names, each wrapped in
  backquotes, and leaves the constraint clause out.
\<close>

theorem sqliteParseDDL_example:
  "sqliteParseDDL ddl3 = Inr ddl3Parsed
   \<and> length (fields_ddl ddl3Parsed) = 3
   \<and> getColumns ddl3Parsed = [''`a`'', ''`b`'']"
  by code_simp

text \<open>
  The column list of the example is not the list of the bare names \<open>a\<close> and \<open>b\<close>.
\<close>

theorem getColumns_example_counterexample:
  "sqliteParseDDL ddl3 = Inr ddl3Parsed \<and> getColumns ddl3Parsed \<noteq> [''a'', ''b'']"
  by code_simp

section \<open>Properties of table recreation\<close>

lemma Exec_frame: "execFails (snd (Exec d q a)) = execFails d"
  by (simp add: Exec_def split: option.splits)

lemma execQueries_prefix:
  "\<exists>k \<le> length qs.
      executed (snd (execQueries d qs)) = executed d @ map (\<lambda>q. (q, [])) (take k qs)
      \<and> (fst (execQueries d qs) = None \<longleftrightarrow> k = length qs)
      \<and> (k < length qs \<longrightarrow>
            execFails d (executed d @ map (\<lambda>q. (q, [])) (take k qs)) (qs ! k, []) \<noteq> None)"
proof (induction qs arbitrary: d)
  case Nil
  then show ?case by simp
next
  case (Cons q qs)
  show ?case
  proof (cases "execFails d (executed d) (q, [])")
    case (Some e)
    then show ?thesis by (intro exI [of _ 0]) (simp add: Exec_def)
  next
    case None
    define d1 where "d1 = d\<lparr>executed := executed d @ [(q, [])]\<rparr>"
    from None have run: "execQueries d (q # qs) = execQueries d1 qs"
      by (simp add: Exec_def d1_def)
    from Cons.IH [of d1] obtain k where k: "k \<le> length qs"
      "executed (snd (execQueries d1 qs)) = executed d1 @ map (\<lambda>q. (q, [])) (take k qs)"
      "fst (execQueries d1 qs) = None \<longleftrightarrow> k = length qs"
      "k < length qs \<longrightarrow>
         execFails d1 (executed d1 @ map (\<lambda>q. (q, [])) (take k qs)) (qs ! k, []) \<noteq> None"
      by (elim exE conjE) (rule that)
    show ?thesis
      using k run by (intro exI [of _ "Suc k"]) (simp add: d1_def)
  qed
qed

text \<open>
  C1 (amended). For every table-recreate operation, \<open>recreateTable\<close> performs, in order: it fetches the
  raw statement of the table; applies the caller's mutation to the raw statement, and returns without
  executing anything when the mutation yields the empty text; rewrites the table name token to the
  temporary name in the mutated statement; parses the result and takes its column list. A failure
  up to here (of the fetch, of the mutation, of the compilation of the table pattern, of the parse)
  returns the error and executes nothing. It then executes the rewritten statement, the row copy
  over the column list of the mutated statement, the drop of the original table and the rename of
  the temporary one. Any step failing aborts the remaining steps: the statements executed are the
  first \<open>k\<close> of these four, the call returns no error exactly when \<open>k = 4\<close>, and otherwise statement
  \<open>k\<close> is the one that failed. So when the failure occurs before the drop, neither the drop nor the
  rename has been executed, and the original table is still present.
\<close>

theorem recreateTable_sequence:
  "(getRawDDL d table = Inl e \<longrightarrow> recreateTable compile d table getCreateSQL = (Some e, d))
   \<and> (getRawDDL d table = Inr rawDDL \<longrightarrow>
        (getCreateSQL rawDDL = Inl e \<longrightarrow> recreateTable compile d table getCreateSQL = (Some e, d))
        \<and> (getCreateSQL rawDDL = Inr ([], sqlArgs) \<longrightarrow>
              recreateTable compile d table getCreateSQL = (None, d))
        \<and> (getCreateSQL rawDDL = Inr (createSQL, sqlArgs) \<and> createSQL \<noteq> [] \<longrightarrow>
             (compile (tablePattern table) = Inl e \<longrightarrow>
                recreateTable compile d table getCreateSQL = (Some e, d))
             \<and> (compile (tablePattern table) = Inr tableReg \<longrightarrow>
                  (sqliteParseDDL (tableReg createSQL ('' `'' @ (table @ ''__temp'') @ ''` '')) = Inl e \<longrightarrow>
                     recreateTable compile d table getCreateSQL = (Some e, d))
                  \<and> (sqliteParseDDL (tableReg createSQL ('' `'' @ (table @ ''__temp'') @ ''` '')) = Inr doc \<longrightarrow>
                       (\<exists>k \<le> 4.
                          executed (snd (recreateTable compile d table getCreateSQL)) =
                            executed d @ take k (recreateSteps table
                              (tableReg createSQL ('' `'' @ (table @ ''__temp'') @ ''` '')) sqlArgs
                              (getColumns doc))
                          \<and> (fst (recreateTable compile d table getCreateSQL) = None \<longleftrightarrow> k = 4)
                          \<and> (k < 4 \<longrightarrow>
                                execFails d (executed d @ take k (recreateSteps table
                                    (tableReg createSQL ('' `'' @ (table @ ''__temp'') @ ''` '')) sqlArgs
                                    (getColumns doc)))
                                  (recreateSteps table
                                    (tableReg createSQL ('' `'' @ (table @ ''__temp'') @ ''` '')) sqlArgs
                                    (getColumns doc) ! k)
                                \<noteq> None))))))"
proof (intro conjI impI)
  assume "getRawDDL d table = Inl e"
  then show "recreateTable compile d table getCreateSQL = (Some e, d)" by (simp add: recreateTable_def)
next
  assume "getRawDDL d table = Inr rawDDL" "getCreateSQL rawDDL = Inl e"
  then show "recreateTable compile d table getCreateSQL = (Some e, d)" by (simp add: recreateTable_def)
next
  assume "getRawDDL d table = Inr rawDDL" "getCreateSQL rawDDL = Inr ([], sqlArgs)"
  then show "recreateTable compile d table getCreateSQL = (None, d)" by (simp add: recreateTable_def)
next
  assume "getRawDDL d table = Inr rawDDL" "getCreateSQL rawDDL = Inr (createSQL, sqlArgs) \<and> createSQL \<noteq> []"
    "compile (tablePattern table) = Inl e"
  then show "recreateTable compile d table getCreateSQL = (Some e, d)" by (simp add: recreateTable_def)
next
  assume "getRawDDL d table = Inr rawDDL" "getCreateSQL rawDDL = Inr (createSQL, sqlArgs) \<and> createSQL \<noteq> []"
    "compile (tablePattern table) = Inr tableReg"
    "sqliteParseDDL (tableReg createSQL ('' `'' @ (table @ ''__temp'') @ ''` '')) = Inl e"
  then show "recreateTable compile d table getCreateSQL = (Some e, d)" by (simp add: recreateTable_def)
next
  define sql where "sql = tableReg createSQL ('' `'' @ (table @ ''__temp'') @ ''` '')"
  define steps where "steps = recreateSteps table sql sqlArgs (getColumns doc)"
  define qs where "qs = recreateQueries table (table @ ''__temp'') (getColumns doc)"
  assume a: "getRawDDL d table = Inr rawDDL" "getCreateSQL rawDDL = Inr (createSQL, sqlArgs) \<and> createSQL \<noteq> []"
    "compile (tablePattern table) = Inr tableReg"
    "sqliteParseDDL (tableReg createSQL ('' `'' @ (table @ ''__temp'') @ ''` '')) = Inr doc"
  have steps: "steps = (sql, sqlArgs) # map (\<lambda>q. (q, [])) qs" and len: "length qs = 3"
    by (simp_all add: steps_def qs_def recreateSteps_def recreateQueries_def)
  have run: "recreateTable compile d table getCreateSQL =
      (case Exec d sql sqlArgs of (Some e, d1) \<Rightarrow> (Some e, d1) | (None, d1) \<Rightarrow> execQueries d1 qs)"
    using a unfolding recreateTable_def sql_def qs_def by (simp add: Let_def)
  have "\<exists>k \<le> 4. executed (snd (recreateTable compile d table getCreateSQL)) = executed d @ take k steps
          \<and> (fst (recreateTable compile d table getCreateSQL) = None \<longleftrightarrow> k = 4)
          \<and> (k < 4 \<longrightarrow> execFails d (executed d @ take k steps) (steps ! k) \<noteq> None)"
  proof (cases "execFails d (executed d) (sql, sqlArgs)")
    case (Some x)
    then show ?thesis using run by (intro exI [of _ 0]) (simp add: Exec_def steps)
  next
    case None
    define d1 where "d1 = d\<lparr>executed := executed d @ [(sql, sqlArgs)]\<rparr>"
    from None run have r: "recreateTable compile d table getCreateSQL = execQueries d1 qs"
      by (simp add: Exec_def d1_def)
    from execQueries_prefix [of qs d1] obtain k where k: "k \<le> length qs"
      "executed (snd (execQueries d1 qs)) = executed d1 @ map (\<lambda>q. (q, [])) (take k qs)"
      "fst (execQueries d1 qs) = None \<longleftrightarrow> k = length qs"
      "k < length qs \<longrightarrow>
         execFails d1 (executed d1 @ map (\<lambda>q. (q, [])) (take k qs)) (qs ! k, []) \<noteq> None"
      by (elim exE conjE) (rule that)
    have e: "executed (snd (recreateTable compile d table getCreateSQL)) = executed d @ take (Suc k) steps"
      using k(2) r by (simp add: d1_def steps take_map)
    have f: "fst (recreateTable compile d table getCreateSQL) = None \<longleftrightarrow> Suc k = 4"
      using k(3) r len by simp
    have g: "Suc k < 4 \<longrightarrow> execFails d (executed d @ take (Suc k) steps) (steps ! Suc k) \<noteq> None"
      using k(4) len by (simp add: d1_def steps take_map)
    from k(1) len have h: "Suc k \<le> 4" by simp
    show ?thesis by (rule exI [of _ "Suc k"]) (intro conjI h e f g)
  qed
  then show "\<exists>k \<le> 4.
       executed (snd (recreateTable compile d table getCreateSQL)) =
         executed d @ take k (recreateSteps table
           (tableReg createSQL ('' `'' @ (table @ ''__temp'') @ ''` '')) sqlArgs (getColumns doc))
       \<and> (fst (recreateTable compile d table getCreateSQL) = None \<longleftrightarrow> k = 4)
       \<and> (k < 4 \<longrightarrow>
             execFails d (executed d @ take k (recreateSteps table
                 (tableReg createSQL ('' `'' @ (table @ ''__temp'') @ ''` '')) sqlArgs (getColumns doc)))
               (recreateSteps table
                 (tableReg createSQL ('' `'' @ (table @ ''__temp'') @ ''` '')) sqlArgs (getColumns doc) ! k)
             \<noteq> None)"
    unfolding steps_def sql_def .
qed

theorem recreateTable_sequence_witness:
  "getRawDDL (tableDB ddlT []) ''t'' = Inr ddlT
   \<and> dropB ddlT = Inr (ddlDropped, [])
   \<and> ddlDropped \<noteq> []
   \<and> wordRegexp ''t'' ''b'' (tablePattern ''t'') = Inr tableRegT
   \<and> tableRegT ddlDropped ('' `'' @ (''t'' @ ''__temp'') @ ''` '') = ''CREATE TABLE `t__temp` (`a` INT,`c` INT)''
   \<and> sqliteParseDDL (tableRegT ddlDropped ('' `'' @ (''t'' @ ''__temp'') @ ''` '')) = Inr tempDoc
   \<and> getColumns tempDoc = [''`a`'', ''`c`'']
   \<and> recreateTable (wordRegexp ''t'' ''b'') (tableDB ddlT []) ''t'' dropB =
       (None, (tableDB ddlT [])
          \<lparr>executed := [(''CREATE TABLE `t__temp` (`a` INT,`c` INT)'', []),
                        (''INSERT INTO `t__temp`(`a`,`c`) SELECT `a`,`c` FROM `t`'', []),
                        (''DROP TABLE `t`'', []),
                        (''ALTER TABLE `t__temp` RENAME TO `t`'', [])]\<rparr>)
   \<and> fst (recreateTable (wordRegexp ''t'' ''b'') dropFails ''t'' dropB) \<noteq> None
   \<and> executed (snd (recreateTable (wordRegexp ''t'' ''b'') dropFails ''t'' dropB)) =
       [(''CREATE TABLE `t__temp` (`a` INT,`c` INT)'', []),
        (''INSERT INTO `t__temp`(`a`,`c`) SELECT `a`,`c` FROM `t`'', [])]
   \<and> recreateTable (wordRegexp ''t'' ''b'') (tableDB ddlT []) ''u'' dropB
       = (Some (NotFound ''object''), tableDB ddlT [])
   \<and> recreateTable noRegexp (tableDB ddlT []) ''t'' dropB
       = (Some (External ''error parsing regexp''), tableDB ddlT [])
   \<and> recreateTable (wordRegexp ''t'' ''b'') (tableDB ddlT []) ''t'' noDDL = (None, tableDB ddlT [])"
proof -
  have r: "getRawDDL (tableDB ddlT []) ''t'' = Inr ddlT"
    and r': "getRawDDL dropFails ''t'' = Inr ddlT"
    and ru: "getRawDDL (tableDB ddlT []) ''u'' = Inl (NotFound ''object'')"
    by (simp_all add: getRawDDL_def tableDB_def dropFails_def)
  have m: "dropB ddlT = Inr (ddlDropped, [])" by code_simp
  have ne: "ddlDropped \<noteq> []" by (simp add: ddlDropped_def)
  have c: "wordRegexp ''t'' ''b'' (tablePattern ''t'') = Inr tableRegT"
    by (simp add: wordRegexp_def tableRegT_def isWord_def)
  have sql: "tableRegT ddlDropped ('' `'' @ (''t'' @ ''__temp'') @ ''` '')
             = ''CREATE TABLE `t__temp` (`a` INT,`c` INT)''"
    by code_simp
  have s: "sqliteParseDDL (tableRegT ddlDropped ('' `'' @ (''t'' @ ''__temp'') @ ''` '')) = Inr tempDoc"
    by code_simp
  have cols: "getColumns tempDoc = [''`a`'', ''`c`'']" by code_simp
  have steps: "recreateSteps ''t'' ''CREATE TABLE `t__temp` (`a` INT,`c` INT)'' [] [''`a`'', ''`c`''] =
       [(''CREATE TABLE `t__temp` (`a` INT,`c` INT)'', []),
        (''INSERT INTO `t__temp`(`a`,`c`) SELECT `a`,`c` FROM `t`'', []),
        (''DROP TABLE `t`'', []),
        (''ALTER TABLE `t__temp` RENAME TO `t`'', [])]"
    by code_simp
  have ex0: "executed (tableDB ddlT []) = []" and ex1: "executed dropFails = []"
    by (simp_all add: tableDB_def dropFails_def)
  note g = recreateTable_sequence [of "tableDB ddlT []" "''t''" undefined "wordRegexp ''t'' ''b''" dropB ddlT "[]"
             ddlDropped tableRegT tempDoc,
             THEN conjunct2, THEN mp, OF r, THEN conjunct2, THEN conjunct2, THEN mp,
             OF conjI [OF m ne], THEN conjunct2, THEN mp, OF c, THEN conjunct2, THEN mp, OF s,
             unfolded sql cols steps ex0 append_Nil]
  note f0 = recreateTable_sequence [of dropFails "''t''" undefined "wordRegexp ''t'' ''b''" dropB ddlT "[]"
             ddlDropped tableRegT tempDoc,
             THEN conjunct2, THEN mp, OF r', THEN conjunct2, THEN conjunct2, THEN mp,
             OF conjI [OF m ne], THEN conjunct2, THEN mp, OF c, THEN conjunct2, THEN mp, OF s,
             unfolded sql cols steps ex1 append_Nil]
  note u = recreateTable_sequence [of "tableDB ddlT []" "''u''" "NotFound ''object''" "wordRegexp ''t'' ''b''" dropB,
             THEN conjunct1, THEN mp, OF ru]
  have nc: "noRegexp (tablePattern ''t'') = Inl (External ''error parsing regexp'')"
    by (simp add: noRegexp_def)
  note v = recreateTable_sequence [of "tableDB ddlT []" "''t''" "External ''error parsing regexp''" noRegexp dropB
             ddlT "[]" ddlDropped,
             THEN conjunct2, THEN mp, OF r, THEN conjunct2, THEN conjunct2, THEN mp,
             OF conjI [OF m ne], THEN conjunct1, THEN mp, OF nc]
  have nd: "noDDL ddlT = Inr ([], [])" by (simp add: noDDL_def)
  note z = recreateTable_sequence [of "tableDB ddlT []" "''t''" undefined "wordRegexp ''t'' ''b''" noDDL
             ddlT "[]",
             THEN conjunct2, THEN mp, OF r, THEN conjunct2, THEN conjunct1, THEN mp, OF nd]
  have ok: "fst (recreateTable (wordRegexp ''t'' ''b'') (tableDB ddlT []) ''t'' dropB) = None" by code_simp
  from g obtain k where k: "k \<le> 4"
    "executed (snd (recreateTable (wordRegexp ''t'' ''b'') (tableDB ddlT []) ''t'' dropB)) =
       take k [(''CREATE TABLE `t__temp` (`a` INT,`c` INT)'', []),
        (''INSERT INTO `t__temp`(`a`,`c`) SELECT `a`,`c` FROM `t`'', []),
        (''DROP TABLE `t`'', []),
        (''ALTER TABLE `t__temp` RENAME TO `t`'', [])]"
    "fst (recreateTable (wordRegexp ''t'' ''b'') (tableDB ddlT []) ''t'' dropB) = None \<longleftrightarrow> k = 4"
    by (elim exE conjE) (rule that)
  from k(3) ok have "k = 4" by simp
  with k(2) have ex: "executed (snd (recreateTable (wordRegexp ''t'' ''b'') (tableDB ddlT []) ''t'' dropB)) =
       [(''CREATE TABLE `t__temp` (`a` INT,`c` INT)'', []),
        (''INSERT INTO `t__temp`(`a`,`c`) SELECT `a`,`c` FROM `t`'', []),
        (''DROP TABLE `t`'', []),
        (''ALTER TABLE `t__temp` RENAME TO `t`'', [])]"
    by simp
  have fr: "rawDDLOf (snd (recreateTable (wordRegexp ''t'' ''b'') (tableDB ddlT []) ''t'' dropB)) = rawDDLOf (tableDB ddlT [])"
    "execFails (snd (recreateTable (wordRegexp ''t'' ''b'') (tableDB ddlT []) ''t'' dropB)) = execFails (tableDB ddlT [])"
    using r m ne c s
    by (simp_all add: recreateTable_def Exec_def recreateQueries_def Let_def tableDB_def
          split: option.splits prod.splits)
  have full: "recreateTable (wordRegexp ''t'' ''b'') (tableDB ddlT []) ''t'' dropB =
       (None, (tableDB ddlT [])
          \<lparr>executed := [(''CREATE TABLE `t__temp` (`a` INT,`c` INT)'', []),
                        (''INSERT INTO `t__temp`(`a`,`c`) SELECT `a`,`c` FROM `t`'', []),
                        (''DROP TABLE `t`'', []),
                        (''ALTER TABLE `t__temp` RENAME TO `t`'', [])]\<rparr>)"
    using ok ex fr by (simp add: prod_eq_iff sqlitedb.equality)
  have bad: "fst (recreateTable (wordRegexp ''t'' ''b'') dropFails ''t'' dropB) \<noteq> None" by code_simp
  from f0 obtain j where j: "j \<le> 4"
    "executed (snd (recreateTable (wordRegexp ''t'' ''b'') dropFails ''t'' dropB)) =
       take j [(''CREATE TABLE `t__temp` (`a` INT,`c` INT)'', []),
        (''INSERT INTO `t__temp`(`a`,`c`) SELECT `a`,`c` FROM `t`'', []),
        (''DROP TABLE `t`'', []),
        (''ALTER TABLE `t__temp` RENAME TO `t`'', [])]"
    "fst (recreateTable (wordRegexp ''t'' ''b'') dropFails ''t'' dropB) = None \<longleftrightarrow> j = 4"
    "j < 4 \<longrightarrow> execFails dropFails
        (take j [(''CREATE TABLE `t__temp` (`a` INT,`c` INT)'', []),
        (''INSERT INTO `t__temp`(`a`,`c`) SELECT `a`,`c` FROM `t`'', []),
        (''DROP TABLE `t`'', []),
        (''ALTER TABLE `t__temp` RENAME TO `t`'', [])])
        ([(''CREATE TABLE `t__temp` (`a` INT,`c` INT)'', []),
        (''INSERT INTO `t__temp`(`a`,`c`) SELECT `a`,`c` FROM `t`'', []),
        (''DROP TABLE `t`'', []),
        (''ALTER TABLE `t__temp` RENAME TO `t`'', [])] ! j) \<noteq> None"
    by (elim exE conjE) (rule that)
  from j(1,3) bad have j4: "j < 4" by simp
  then consider "j = 0" | "j = 1" | "j = 2" | "j = 3" by linarith
  then have "j = 2"
  proof cases
    case 1
    with j(4) show ?thesis by (simp add: dropFails_def tableDB_def)
  next
    case 2
    with j(4) show ?thesis by (simp add: dropFails_def tableDB_def)
  next
    case 3
    then show ?thesis .
  next
    case 4
    with j(4) show ?thesis by (simp add: dropFails_def tableDB_def)
  qed
  with j(2) have exf: "executed (snd (recreateTable (wordRegexp ''t'' ''b'') dropFails ''t'' dropB)) =
       [(''CREATE TABLE `t__temp` (`a` INT,`c` INT)'', []),
        (''INSERT INTO `t__temp`(`a`,`c`) SELECT `a`,`c` FROM `t`'', [])]"
    by (simp add: numeral_2_eq_2)
  show ?thesis by (intro conjI r m ne c sql s cols full bad exf u v z)
qed

text \<open>
  Dropping the column \<open>b\<close> of a table with the columns \<open>a\<close>, \<open>b\<close> and \<open>c\<close> copies the rows over the
  columns \<open>a\<close> and \<open>c\<close>, the columns of the statement after the mutation; the column list computed
  before the mutation would name \<open>b\<close> as well. The mutation is given the raw statement, with the
  original table name, not the rewritten one. And when the mutation returns the empty text, no
  statement is executed and the call returns no error.
\<close>

theorem recreateTable_columns_counterexample:
  "executed (snd (DropColumn (wordRegexp ''t'' ''b'') (tableDB ddlT []) ''b'' ''t'')) =
     [(''CREATE TABLE `t__temp` (`a` INT,`c` INT)'', []),
      (''INSERT INTO `t__temp`(`a`,`c`) SELECT `a`,`c` FROM `t`'', []),
      (''DROP TABLE `t`'', []),
      (''ALTER TABLE `t__temp` RENAME TO `t`'', [])]
   \<and> recreateSteps_spec tableRegT ''t'' ddlT removeB =
     [(''CREATE TABLE `t__temp` (`a` INT,`c` INT)'', []),
      (''INSERT INTO `t__temp`(`a`,`b`,`c`) SELECT `a`,`b`,`c` FROM `t`'', []),
      (''DROP TABLE `t`'', []),
      (''ALTER TABLE `t__temp` RENAME TO `t`'', [])]
   \<and> executed (snd (recreateTable (wordRegexp ''t'' ''b'') (tableDB ddlT []) ''t'' echoSQL)) =
     [(''CREATE TABLE `t__temp` (`a` INT,`b` TEXT,`c` INT)'', [''CREATE TABLE `t` (`a` INT,`b` TEXT,`c` INT)'']),
      (''INSERT INTO `t__temp`(`a`,`b`,`c`) SELECT `a`,`b`,`c` FROM `t`'', []),
      (''DROP TABLE `t`'', []),
      (''ALTER TABLE `t__temp` RENAME TO `t`'', [])]
   \<and> recreateSteps_spec tableRegT ''t'' ddlT echoDDL =
     [(''CREATE TABLE `t__temp` (`a` INT,`b` TEXT,`c` INT)'',
         [''CREATE TABLE `t__temp` (`a` INT,`b` TEXT,`c` INT)'']),
      (''INSERT INTO `t__temp`(`a`,`b`,`c`) SELECT `a`,`b`,`c` FROM `t`'', []),
      (''DROP TABLE `t`'', []),
      (''ALTER TABLE `t__temp` RENAME TO `t`'', [])]
   \<and> fst (recreateTable (wordRegexp ''t'' ''b'') (tableDB ddlT []) ''t'' noDDL) = None
   \<and> executed (snd (recreateTable (wordRegexp ''t'' ''b'') (tableDB ddlT []) ''t'' noDDL)) = []"
  by code_simp

section \<open>Properties of automigrate\<close>

lemma issue_log: "issue drv op st = (e, st') \<Longrightarrow> snd st' = snd st @ [op]"
  by (auto simp: issue_def split: prod.splits)

lemma MigrateColumn_eq:
  "MigrateColumn drv expect actual table st =
     (if needsAlter expect actual then AlterColumn drv (name expect) table st else (None, st))"
  by (auto simp: MigrateColumn_def needsAlter_def Let_def)

lemma migrateColumns_log:
  "migrateColumns drv t actual es st = (e, st') \<Longrightarrow>
   \<exists>ops. snd st' = snd st @ ops \<and> prefix ops (columnOps t actual es)
         \<and> (e = None \<longrightarrow> ops = columnOps t actual es)"
proof (induction es arbitrary: st)
  case Nil
  then show ?case by (simp add: columnOps_def)
next
  case (Cons x es)
  have cons: "columnOps t actual (x # es) = columnOp t actual x @ columnOps t actual es"
    by (simp add: columnOps_def)
  show ?case
  proof (cases "find (\<lambda>a. name a = name x) actual")
    case None
    then have op: "columnOp t actual x = [OpAddColumn t (name x)]" by (simp add: columnOp_def)
    obtain e1 st1 where a: "AddColumn drv (name x) t st = (e1, st1)" by (cases "AddColumn drv (name x) t st")
    then have log1: "snd st1 = snd st @ [OpAddColumn t (name x)]"
      by (simp add: AddColumn_def issue_log)
    show ?thesis
    proof (cases e1)
      case (Some err0)
      with Cons.prems None a have "st' = st1" "e = Some err0" by simp_all
      with log1 show ?thesis by (intro exI [of _ "[OpAddColumn t (name x)]"]) (simp add: cons op)
    next
      case n: None
      with Cons.prems None a have "migrateColumns drv t actual es st1 = (e, st')" by simp
      from Cons.IH [OF this] obtain ops where
        "snd st' = snd st1 @ ops" "prefix ops (columnOps t actual es)"
        "e = None \<longrightarrow> ops = columnOps t actual es" by blast
      with log1 show ?thesis
        by (intro exI [of _ "OpAddColumn t (name x) # ops"]) (simp add: cons op)
    qed
  next
    case (Some found)
    show ?thesis
    proof (cases "needsAlter x found")
      case True
      with Some have op: "columnOp t actual x = [OpAlterColumn t (name x)]" by (simp add: columnOp_def)
      obtain e1 st1 where a: "AlterColumn drv (name x) t st = (e1, st1)" by (cases "AlterColumn drv (name x) t st")
      then have log1: "snd st1 = snd st @ [OpAlterColumn t (name x)]"
        by (simp add: AlterColumn_def issue_log)
      show ?thesis
      proof (cases e1)
        case (Some err0)
        with Cons.prems \<open>find _ actual = Some found\<close> True a have "st' = st1" "e = Some err0"
          by (simp_all add: MigrateColumn_eq)
        with log1 show ?thesis by (intro exI [of _ "[OpAlterColumn t (name x)]"]) (simp add: cons op)
      next
        case n: None
        with Cons.prems \<open>find _ actual = Some found\<close> True a
        have "migrateColumns drv t actual es st1 = (e, st')" by (simp add: MigrateColumn_eq)
        from Cons.IH [OF this] obtain ops where
          "snd st' = snd st1 @ ops" "prefix ops (columnOps t actual es)"
          "e = None \<longrightarrow> ops = columnOps t actual es" by blast
        with log1 show ?thesis
          by (intro exI [of _ "OpAlterColumn t (name x) # ops"]) (simp add: cons op)
      qed
    next
      case False
      with Some have op: "columnOp t actual x = []" by (simp add: columnOp_def)
      from Cons.prems Some False have "migrateColumns drv t actual es st = (e, st')"
        by (simp add: MigrateColumn_eq)
      from Cons.IH [OF this] show ?thesis by (simp add: cons op)
    qed
  qed
qed

lemma createMissingIndexes_log:
  "createMissingIndexes drv t fs st = (e, st') \<Longrightarrow>
   \<exists>ixs. subseq ixs (map name (filter indexKey fs)) \<and> snd st' = snd st @ map (OpCreateIndex t) ixs"
proof (induction fs arbitrary: st)
  case Nil
  then show ?case by simp
next
  case (Cons f fs)
  show ?case
  proof (cases "indexKey f \<and> \<not> HasIndex drv (fst st) (name f) t")
    case True
    obtain e1 st1 where a: "CreateIndex drv (name f) t st = (e1, st1)" by (cases "CreateIndex drv (name f) t st")
    then have log1: "snd st1 = snd st @ [OpCreateIndex t (name f)]"
      by (simp add: CreateIndex_def issue_log)
    show ?thesis
    proof (cases e1)
      case (Some err0)
      with Cons.prems True a have "st' = st1" by simp
      with log1 True show ?thesis by (intro exI [of _ "[name f]"]) simp
    next
      case None
      with Cons.prems True a have "createMissingIndexes drv t fs st1 = (e, st')" by simp
      from Cons.IH [OF this] obtain ixs where
        "subseq ixs (map name (filter indexKey fs))" "snd st' = snd st1 @ map (OpCreateIndex t) ixs"
        by blast
      with log1 True show ?thesis by (intro exI [of _ "name f # ixs"]) simp
    qed
  next
    case False
    with Cons.prems have "createMissingIndexes drv t fs st = (e, st')" by auto
    from Cons.IH [OF this] obtain ixs where
      ixs: "subseq ixs (map name (filter indexKey fs))" "snd st' = snd st @ map (OpCreateIndex t) ixs"
      by blast
    then show ?thesis by (intro exI [of _ ixs]) (auto intro: subseq_Cons')
  qed
qed

lemma runDeferred_failed: "runDeferred drv t fs (Some x) st = (Some x, st)"
  by (induction fs) simp_all









lemma AutoMigrate_existing:
  assumes "HasTable drv dbs t"
  shows "\<exists>ixs. subseq ixs (map name (filter indexKey desired))
           \<and> prefix (snd (snd (AutoMigrate drv t desired (dbs, []))))
                (columnOps t (actualColumns drv dbs t) desired @ map (OpCreateIndex t) ixs)
           \<and> (fst (AutoMigrate drv t desired (dbs, [])) = None \<longrightarrow>
                snd (snd (AutoMigrate drv t desired (dbs, []))) =
                  columnOps t (actualColumns drv dbs t) desired @ map (OpCreateIndex t) ixs)"
proof -
  define actual where "actual = actualColumns drv dbs t"
  obtain e1 st1 where c: "migrateColumns drv t actual desired (dbs, []) = (e1, st1)"
    by (cases "migrateColumns drv t actual desired (dbs, [])")
  from migrateColumns_log [OF c] obtain ops where ops:
    "snd st1 = ops" "prefix ops (columnOps t actual desired)" "e1 = None \<longrightarrow> ops = columnOps t actual desired"
    by auto
  show ?thesis
  proof (cases e1)
    case (Some err0)
    with assms c have "AutoMigrate drv t desired (dbs, []) = (Some err0, st1)"
      by (simp add: AutoMigrate_def actual_def Let_def)
    with ops show ?thesis
      by (intro exI [of _ "[]"]) (simp add: actual_def)
  next
    case None
    obtain e2 st2 where i: "createMissingIndexes drv t desired st1 = (e2, st2)"
      by (cases "createMissingIndexes drv t desired st1")
    from createMissingIndexes_log [OF i] obtain ixs where ixs:
      "subseq ixs (map name (filter indexKey desired))" "snd st2 = snd st1 @ map (OpCreateIndex t) ixs"
      by blast
    from None assms c i have "AutoMigrate drv t desired (dbs, []) = (e2, st2)"
      by (simp add: AutoMigrate_def actual_def Let_def)
    with ops ixs None show ?thesis
      by (intro exI [of _ ixs]) (simp add: actual_def)
  qed
qed







lemma migrateColumns_settled:
  "\<forall>e \<in> set es. \<exists>a. find (\<lambda>a. name a = name e) actual = Some a \<and> \<not> needsAlter e a \<Longrightarrow>
   migrateColumns drv t actual es st = (None, st)"
  by (induction es) (auto simp: MigrateColumn_eq)

lemma createMissingIndexes_settled:
  "\<forall>e \<in> set es. indexKey e \<longrightarrow> HasIndex drv (fst st) (name e) t \<Longrightarrow>
   createMissingIndexes drv t es st = (None, st)"
  by (induction es) auto

lemma AutoMigrate_settled:
  assumes "settled drv dbs t desired"
  shows "AutoMigrate drv t desired (dbs, log) = (None, (dbs, log))"
proof -
  from assms obtain actual where a: "HasTable drv dbs t" "ColumnTypes drv dbs t = Inr actual"
    "\<forall>e \<in> set desired. \<exists>a. find (\<lambda>a. name a = name e) actual = Some a \<and> \<not> needsAlter e a"
    "\<forall>e \<in> set desired. indexKey e \<longrightarrow> HasIndex drv dbs (name e) t"
    unfolding settled_def by blast
  from a(2) have ac: "actualColumns drv dbs t = actual" by (simp add: actualColumns_def)
  from migrateColumns_settled [OF a(3), of drv t "(dbs, log)"]
       createMissingIndexes_settled [of desired drv "(dbs, log)" t] a(1,4) ac
  show ?thesis by (simp add: AutoMigrate_def Let_def)
qed

lemma find_self:
  "distinct (map name xs) \<Longrightarrow> e \<in> set xs \<Longrightarrow> find (\<lambda>f. name f = name e) xs = Some e"
  by (induction xs) force+

lemma name_declared [simp]: "name (declared f) = name f"
  by (simp add: declared_def)

lemma find_declared:
  "distinct (map name xs) \<Longrightarrow> e \<in> set xs \<Longrightarrow>
   find (\<lambda>a. name a = name e) (map declared xs) = Some (declared e)"
  by (induction xs) force+

lemma not_needsAlter_declared: "\<not> needsAlter e (declared e)"
  by (simp add: needsAlter_def declared_def)

lemma find_none_iff: "find P xs = None \<longleftrightarrow> (\<forall>x \<in> set xs. \<not> P x)"
  by (induction xs) auto

lemma find_snoc:
  "find P (xs @ [y]) = (case find P xs of Some x \<Rightarrow> Some x | None \<Rightarrow> if P y then Some y else None)"
  by (induction xs) auto

lemma find_replace_other:
  "n \<noteq> c \<Longrightarrow> name d = c \<Longrightarrow>
   find (\<lambda>a. name a = n) (map (\<lambda>a. if name a = c then d else a) cols) = find (\<lambda>a. name a = n) cols"
  by (induction cols) auto

lemma find_replace_same:
  "find (\<lambda>a. name a = c) cols = Some x \<Longrightarrow> name d = c \<Longrightarrow>
   find (\<lambda>a. name a = c) (map (\<lambda>a. if name a = c then d else a) cols) = Some d"
  by (induction cols) (auto split: if_splits)

lemma sim_AddColumn:
  assumes "AddColumn (simDriver s) (name e) t (d, log) = (None, st')"
    and "distinct (map name s)" and "e \<in> set s"
  shows "\<exists>cols. tables d t = Some cols \<and> tables (fst st') = (tables d)(t \<mapsto> cols @ [declared e])"
  using assms(1) find_self [OF assms(2,3)]
  by (auto simp: AddColumn_def issue_def simDriver_def simRun_def split: if_splits option.splits)

lemma sim_AlterColumn:
  assumes "AlterColumn (simDriver s) (name e) t (d, log) = (None, st')"
    and "distinct (map name s)" and "e \<in> set s"
  shows "\<exists>cols. tables d t = Some cols
           \<and> tables (fst st') = (tables d)(t \<mapsto> map (\<lambda>a. if name a = name e then declared e else a) cols)"
  using assms(1) find_self [OF assms(2,3)]
  by (auto simp: AlterColumn_def issue_def simDriver_def simRun_def split: if_splits option.splits)

lemma sim_CreateIndex:
  assumes "CreateIndex (simDriver s) n t (d, log) = (None, st')"
  shows "tables (fst st') = tables d \<and> set (indexes (fst st')) = insert (t, n) (set (indexes d))"
  using assms
  by (auto simp: CreateIndex_def issue_def simDriver_def simRun_def split: if_splits option.splits)

lemma sim_columns:
  assumes dist: "distinct (map name s)"
  shows "set es \<subseteq> set s \<Longrightarrow> distinct (map name es) \<Longrightarrow>
         migrateColumns (simDriver s) t actual0 es (d, log) = (None, st') \<Longrightarrow>
         tables d t = Some cols \<Longrightarrow>
         \<forall>e \<in> set es. find (\<lambda>a. name a = name e) cols = find (\<lambda>a. name a = name e) actual0 \<Longrightarrow>
         \<exists>cols'. tables (fst st') t = Some cols'
            \<and> (\<forall>e \<in> set es. \<exists>a. find (\<lambda>a. name a = name e) cols' = Some a \<and> \<not> needsAlter e a)
            \<and> (\<forall>n. n \<notin> name ` set es \<longrightarrow> find (\<lambda>a. name a = n) cols' = find (\<lambda>a. name a = n) cols)"
proof (induction es arbitrary: d log cols)
  case Nil
  then show ?case by auto
next
  case (Cons e es)
  from Cons.prems have sub: "set es \<subseteq> set s" and e_in: "e \<in> set s"
    and des: "distinct (map name es)" and fresh: "name e \<notin> name ` set es" by auto
  from Cons.prems have inv_e: "find (\<lambda>a. name a = name e) cols = find (\<lambda>a. name a = name e) actual0"
    and inv: "\<forall>x \<in> set es. find (\<lambda>a. name a = name x) cols = find (\<lambda>a. name a = name x) actual0"
    by simp_all
  have other: "\<And>x. x \<in> set es \<Longrightarrow> name x \<noteq> name e" using fresh by (metis image_eqI)
  show ?case
  proof (cases "find (\<lambda>a. name a = name e) actual0")
    case None
    obtain e1 st1 where a: "AddColumn (simDriver s) (name e) t (d, log) = (e1, st1)"
      by (cases "AddColumn (simDriver s) (name e) t (d, log)")
    with Cons.prems(3) None have e1: "e1 = None"
      and r: "migrateColumns (simDriver s) t actual0 es st1 = (None, st')"
      by (cases e1; simp)+
    from sim_AddColumn [OF a [unfolded e1] dist e_in] Cons.prems(4)
    have t1: "tables (fst st1) t = Some (cols @ [declared e])" by auto
    have snoc: "\<And>n. n \<noteq> name e \<Longrightarrow>
                  find (\<lambda>a. name a = n) (cols @ [declared e]) = find (\<lambda>a. name a = n) cols"
      by (simp add: find_snoc split: option.splits)
    have inv1: "\<forall>x \<in> set es. find (\<lambda>a. name a = name x) (cols @ [declared e])
                  = find (\<lambda>a. name a = name x) actual0"
      using inv other snoc by simp
    from Cons.IH [OF sub des _ t1 inv1, of "snd st1"] r obtain cols' where c:
      "tables (fst st') t = Some cols'"
      "\<forall>x \<in> set es. \<exists>a. find (\<lambda>a. name a = name x) cols' = Some a \<and> \<not> needsAlter x a"
      "\<forall>n. n \<notin> name ` set es \<longrightarrow>
          find (\<lambda>a. name a = n) cols' = find (\<lambda>a. name a = n) (cols @ [declared e])"
      by auto
    from inv_e None have "find (\<lambda>a. name a = name e) cols = None" by simp
    with c(3) fresh have "find (\<lambda>a. name a = name e) cols' = Some (declared e)"
      by (simp add: find_snoc)
    moreover have "\<forall>n. n \<notin> name ` set (e # es) \<longrightarrow>
          find (\<lambda>a. name a = n) cols' = find (\<lambda>a. name a = n) cols"
      using c(3) snoc by simp
    ultimately show ?thesis using c(1,2) not_needsAlter_declared [of e] by auto
  next
    case (Some found)
    show ?thesis
    proof (cases "needsAlter e found")
      case True
      obtain e1 st1 where a: "AlterColumn (simDriver s) (name e) t (d, log) = (e1, st1)"
        by (cases "AlterColumn (simDriver s) (name e) t (d, log)")
      with Cons.prems(3) Some True have e1: "e1 = None"
        and r: "migrateColumns (simDriver s) t actual0 es st1 = (None, st')"
        by (cases e1; simp add: MigrateColumn_eq)+
      define cols1 where "cols1 = map (\<lambda>a. if name a = name e then declared e else a) cols"
      from sim_AlterColumn [OF a [unfolded e1] dist e_in] Cons.prems(4)
      have t1: "tables (fst st1) t = Some cols1" by (auto simp: cols1_def)
      have keep: "\<And>n. n \<noteq> name e \<Longrightarrow> find (\<lambda>a. name a = n) cols1 = find (\<lambda>a. name a = n) cols"
        unfolding cols1_def by (rule find_replace_other) simp_all
      have inv1: "\<forall>x \<in> set es. find (\<lambda>a. name a = name x) cols1 = find (\<lambda>a. name a = name x) actual0"
        using inv other keep by simp
      from Cons.IH [OF sub des _ t1 inv1, of "snd st1"] r obtain cols' where c:
        "tables (fst st') t = Some cols'"
        "\<forall>x \<in> set es. \<exists>a. find (\<lambda>a. name a = name x) cols' = Some a \<and> \<not> needsAlter x a"
        "\<forall>n. n \<notin> name ` set es \<longrightarrow> find (\<lambda>a. name a = n) cols' = find (\<lambda>a. name a = n) cols1"
        by auto
      from inv_e Some have "find (\<lambda>a. name a = name e) cols1 = Some (declared e)"
        unfolding cols1_def by (intro find_replace_same) simp_all
      with c(3) fresh have "find (\<lambda>a. name a = name e) cols' = Some (declared e)" by simp
      moreover have "\<forall>n. n \<notin> name ` set (e # es) \<longrightarrow>
            find (\<lambda>a. name a = n) cols' = find (\<lambda>a. name a = n) cols"
        using c(3) keep by auto
      ultimately show ?thesis using c(1,2) not_needsAlter_declared [of e] by auto
    next
      case False
      with Cons.prems(3) Some
      have r: "migrateColumns (simDriver s) t actual0 es (d, log) = (None, st')"
        by (simp add: MigrateColumn_eq)
      from Cons.IH [OF sub des r Cons.prems(4) inv] obtain cols' where c:
        "tables (fst st') t = Some cols'"
        "\<forall>x \<in> set es. \<exists>a. find (\<lambda>a. name a = name x) cols' = Some a \<and> \<not> needsAlter x a"
        "\<forall>n. n \<notin> name ` set es \<longrightarrow> find (\<lambda>a. name a = n) cols' = find (\<lambda>a. name a = n) cols"
        by auto
      from c(3) fresh inv_e Some have "find (\<lambda>a. name a = name e) cols' = Some found" by simp
      with c False show ?thesis by auto
    qed
  qed
qed

lemma sim_runDeferred:
  "runDeferred (simDriver s) t fs None st = (None, st') \<Longrightarrow>
   tables (fst st') = tables (fst st)
   \<and> set (indexes (fst st')) = set (indexes (fst st)) \<union> (\<lambda>f. (t, name f)) ` set fs"
proof (induction fs arbitrary: st)
  case Nil
  then show ?case by simp
next
  case (Cons f fs)
  obtain e1 st1 where a: "CreateIndex (simDriver s) (name f) t st = (e1, st1)"
    by (cases "CreateIndex (simDriver s) (name f) t st")
  have e1: "e1 = None"
  proof (cases e1)
    case (Some x)
    with Cons.prems a show ?thesis by (simp add: runDeferred_failed)
  qed simp
  with Cons.prems a have r: "runDeferred (simDriver s) t fs None st1 = (None, st')" by simp
  from sim_CreateIndex [of s "name f" t "fst st" "snd st" st1] a e1
  have "tables (fst st1) = tables (fst st)"
    "set (indexes (fst st1)) = insert (t, name f) (set (indexes (fst st)))" by simp_all
  with Cons.IH [OF r] show ?case by auto
qed

lemma sim_createMissingIndexes:
  "createMissingIndexes (simDriver s) t fs st = (None, st') \<Longrightarrow>
   tables (fst st') = tables (fst st)
   \<and> set (indexes (fst st)) \<subseteq> set (indexes (fst st'))
   \<and> (\<forall>f \<in> set fs. indexKey f \<longrightarrow> (t, name f) \<in> set (indexes (fst st')))"
proof (induction fs arbitrary: st)
  case Nil
  then show ?case by simp
next
  case (Cons f fs)
  show ?case
  proof (cases "indexKey f \<and> \<not> HasIndex (simDriver s) (fst st) (name f) t")
    case True
    obtain e1 st1 where a: "CreateIndex (simDriver s) (name f) t st = (e1, st1)"
      by (cases "CreateIndex (simDriver s) (name f) t st")
    with Cons.prems True have e1: "e1 = None"
      and r: "createMissingIndexes (simDriver s) t fs st1 = (None, st')"
      by (cases e1; simp)+
    from sim_CreateIndex [of s "name f" t "fst st" "snd st" st1] a e1
    have "tables (fst st1) = tables (fst st)"
      "set (indexes (fst st1)) = insert (t, name f) (set (indexes (fst st)))" by simp_all
    with Cons.IH [OF r] show ?thesis by auto
  next
    case False
    with Cons.prems have r: "createMissingIndexes (simDriver s) t fs st = (None, st')" by auto
    from False have "indexKey f \<longrightarrow> (t, name f) \<in> set (indexes (fst st))"
      by (simp add: simDriver_def)
    with Cons.IH [OF r] show ?thesis by auto
  qed
qed

lemma sim_CreateTable_op:
  assumes "issue (simDriver s) (OpCreateTable t) (d, log) = (None, st1)"
  shows "tables (fst st1) = (tables d)(t \<mapsto> map declared s) \<and> indexes (fst st1) = indexes d"
  using assms
  by (auto simp: issue_def simDriver_def simRun_def split: if_splits option.splits)

lemma sim_settles:
  assumes dist: "distinct (map name desired)"
    and run: "AutoMigrate (simDriver desired) t desired (d, log) = (None, st')"
  shows "settled (simDriver desired) (fst st') t desired"
proof (cases "HasTable (simDriver desired) d t")
  case False
  with run have c: "CreateTable (simDriver desired) t desired (d, log) = (None, st')"
    by (simp add: AutoMigrate_def)
  obtain e1 st1 where a: "issue (simDriver desired) (OpCreateTable t) (d, log) = (e1, st1)"
    by (cases "issue (simDriver desired) (OpCreateTable t) (d, log)")
  have e1: "e1 = None"
  proof (cases e1)
    case (Some x)
    with c a show ?thesis by (simp add: CreateTable_def runDeferred_failed)
  qed simp
  with c a have r: "runDeferred (simDriver desired) t (rev (filter indexKey desired)) None st1 = (None, st')"
    by (simp add: CreateTable_def)
  from sim_CreateTable_op [OF a [unfolded e1]] sim_runDeferred [OF r]
  have tb: "tables (fst st') t = Some (map declared desired)"
    and ix: "\<forall>f \<in> set desired. indexKey f \<longrightarrow> (t, name f) \<in> set (indexes (fst st'))"
    by auto
  have "\<forall>e \<in> set desired. \<exists>a. find (\<lambda>a. name a = name e) (map declared desired) = Some a \<and> \<not> needsAlter e a"
    using find_declared [OF dist] not_needsAlter_declared by blast
  with tb ix show ?thesis
    unfolding settled_def by (auto simp: simDriver_def)
next
  case True
  then obtain cols where cols: "tables d t = Some cols" by (auto simp: simDriver_def)
  then have ac: "actualColumns (simDriver desired) d t = cols"
    by (simp add: actualColumns_def simDriver_def)
  obtain e1 st1 where m: "migrateColumns (simDriver desired) t cols desired (d, log) = (e1, st1)"
    by (cases "migrateColumns (simDriver desired) t cols desired (d, log)")
  with run True ac have e1: "e1 = None"
    and i: "createMissingIndexes (simDriver desired) t desired st1 = (None, st')"
    by (cases e1; simp add: AutoMigrate_def Let_def)+
  from sim_columns [OF dist subset_refl dist m [unfolded e1] cols] obtain cols' where c:
    "tables (fst st1) t = Some cols'"
    "\<forall>e \<in> set desired. \<exists>a. find (\<lambda>a. name a = name e) cols' = Some a \<and> \<not> needsAlter e a"
    by auto
  from sim_createMissingIndexes [OF i] c(1)
  have tb: "tables (fst st') t = Some cols'"
    and ix: "\<forall>f \<in> set desired. indexKey f \<longrightarrow> (t, name f) \<in> set (indexes (fst st'))"
    by auto
  with c(2) show ?thesis
    unfolding settled_def by (auto simp: simDriver_def)
qed

text \<open>
  On the reference database, where every operation takes effect as declared and introspection
  reports what was declared, a second run issues nothing.
\<close>

lemma simDriver_second_run_quiet:
  assumes "distinct (map name desired)"
    and "AutoMigrate (simDriver desired) t desired (d, log) = (None, (d1, log1))"
  shows "AutoMigrate (simDriver desired) t desired (d1, []) = (None, (d1, []))"
  using AutoMigrate_settled [OF sim_settles [OF assms, simplified]] .

text \<open>
  For every driver: when the table exists and introspection reports, for a desired column, a column
  that \<open>MigrateColumn\<close> compares as different, a run that returns no error has issued \<open>AlterColumn\<close>
  for that column.
\<close>

lemma columnOp_alter:
  "find (\<lambda>a. name a = name e) actual = Some a \<Longrightarrow> needsAlter e a \<Longrightarrow>
   columnOp t actual e = [OpAlterColumn t (name e)]"
  by (simp add: columnOp_def)

lemma AutoMigrate_alters_unsettled:
  assumes "HasTable drv d t" and "e \<in> set desired"
    and "find (\<lambda>a. name a = name e) (actualColumns drv d t) = Some a" and "needsAlter e a"
    and "fst (AutoMigrate drv t desired (d, [])) = None"
  shows "OpAlterColumn t (name e) \<in> set (snd (snd (AutoMigrate drv t desired (d, []))))"
proof -
  from AutoMigrate_existing [OF assms(1), of desired] obtain ixs where
    "fst (AutoMigrate drv t desired (d, [])) = None \<longrightarrow>
       snd (snd (AutoMigrate drv t desired (d, []))) =
         columnOps t (actualColumns drv d t) desired @ map (OpCreateIndex t) ixs"
    by (elim exE conjE) (rule that)
  with assms(5) have l: "snd (snd (AutoMigrate drv t desired (d, []))) =
         columnOps t (actualColumns drv d t) desired @ map (OpCreateIndex t) ixs" by simp
  from assms(2) columnOp_alter [OF assms(3,4), of t]
  have "OpAlterColumn t (name e) \<in> set (columnOps t (actualColumns drv d t) desired)"
    unfolding columnOps_def by (simp only: set_concat set_map) force
  with l show ?thesis by simp
qed

text \<open>
  C5. A second run of \<open>AutoMigrate\<close> against the same desired schema can issue operations again.
  The table \<open>t\<close> was created by \<open>CreateTable\<close> from a schema without a primary key, and the desired
  schema now declares its last column \<open>c\<close> as \<^verbatim>\<open>NOT NULL\<close>. The pattern of \<open>Sqlite_AlterColumn\<close> needs a
  comma after the column definition; the last definition is followed by the closing parenthesis, so
  the statement is left as it is, and the table is recreated with the old definition. The run returns
  no error, the column is still nullable, and the second run issues \<open>AlterColumn\<close> for \<open>c\<close> again. For
  the middle column \<open>b\<close> the alteration takes effect and the second run issues nothing. With a driver
  that reports every column as nullable, the second run after a creation alters every column
  declared \<^verbatim>\<open>NOT NULL\<close> again, and recreates the indexes.
\<close>

theorem AutoMigrate_second_run_alters_again:
  "createTableSQL ''t'' tFields = ddlT
   \<and> FullDataTypeOf (column ''c'' ''INT'' (Some True)) = ''INT NOT NULL''
   \<and> executed (snd (Sqlite_AlterColumn (wordRegexp ''t'' ''c'') (fieldNamed tFieldsC) (tableDB ddlT [])
                      ''c'' ''t'')) =
       [(''CREATE TABLE `t__temp` (`a` INT,`b` TEXT,`c` INT)'', []),
        (''INSERT INTO `t__temp`(`a`,`b`,`c`) SELECT `a`,`b`,`c` FROM `t`'', []),
        (''DROP TABLE `t`'', []),
        (''ALTER TABLE `t__temp` RENAME TO `t`'', [])]
   \<and> AutoMigrate (ddlDriver tFieldsC) ''t'' tFieldsC (ddlT, []) = (None, (ddlT, [OpAlterColumn ''t'' ''c'']))
   \<and> AutoMigrate (ddlDriver tFieldsC) ''t'' tFieldsC
         (fst (snd (AutoMigrate (ddlDriver tFieldsC) ''t'' tFieldsC (ddlT, []))), [])
       = (None, (ddlT, [OpAlterColumn ''t'' ''c'']))
   \<and> AutoMigrate (ddlDriver tFieldsB) ''t'' tFieldsB (ddlT, []) = (None, (ddlTB, [OpAlterColumn ''t'' ''b'']))
   \<and> AutoMigrate (ddlDriver tFieldsB) ''t'' tFieldsB (ddlTB, []) = (None, (ddlTB, []))
   \<and> fst (AutoMigrate (nullableDriver userFields) ''user'' userFields (emptyDB, [])) = None
   \<and> snd (snd (AutoMigrate (nullableDriver userFields) ''user'' userFields
         (fst (snd (AutoMigrate (nullableDriver userFields) ''user'' userFields (emptyDB, []))), [])))
       = [OpAlterColumn ''user'' ''id'', OpAlterColumn ''user'' ''name'', OpCreateIndex ''user'' ''name'']"
  by code_simp

end
